theory Spec2Isabelle
  imports Complex_Main "HOL-Library.AList"
begin

section \<open>Values of the remote store\<close>

text \<open>
  The bot keeps everything in a hierarchical key-value store and reads it back as Python
  values: \<open>None\<close>, booleans, numbers, strings, lists and dictionaries. Dictionaries are
  association lists, since the code iterates over \<open>items()\<close> and \<open>values()\<close> in key order.
  Numbers are rationals: Python's binary floats are idealised as exact values.
\<close>

datatype jval =
    JNull
  | JBool bool
  | JNum rat
  | JStr string
  | JList "jval list"
  | JDict "(string \<times> jval) list"

type_synonym jdict = "(string \<times> jval) list"

datatype pyerr = TypeError | AttributeError | KeyError | ValueError | NameError

text \<open>Python truthiness, as used by \<open>not x\<close>, \<open>x or y\<close> and \<open>if x\<close>.\<close>

fun truthy :: "jval \<Rightarrow> bool" where
  "truthy JNull = False"
| "truthy (JBool b) = b"
| "truthy (JNum r) = (r \<noteq> 0)"
| "truthy (JStr s) = (s \<noteq> [])"
| "truthy (JList xs) = (xs \<noteq> [])"
| "truthy (JDict kvs) = (kvs \<noteq> [])"

text \<open>\<open>d.get(k)\<close>: the value, or \<open>None\<close> when the key is missing.\<close>

definition dget :: "jdict \<Rightarrow> string \<Rightarrow> jval" where
  "dget d k = (case map_of d k of None \<Rightarrow> JNull | Some v \<Rightarrow> v)"

text \<open>\<open>x.get(k)\<close> on a value read from the store: only a dictionary has \<open>get\<close>.\<close>

definition py_get :: "jval \<Rightarrow> string \<Rightarrow> pyerr + jval" where
  "py_get x k = (case x of JDict d \<Rightarrow> Inr (dget d k) | _ \<Rightarrow> Inl AttributeError)"

text \<open>\<open>x[k]\<close> with a string key: \<open>KeyError\<close> on a missing key, \<open>TypeError\<close> on a non-dictionary.\<close>

definition py_item :: "jval \<Rightarrow> string \<Rightarrow> pyerr + jval" where
  "py_item x k =
     (case x of
        JDict d \<Rightarrow> (case map_of d k of None \<Rightarrow> Inl KeyError | Some v \<Rightarrow> Inr v)
      | _ \<Rightarrow> Inl TypeError)"

text \<open>
  Reading and writing below a node by a path of keys (\<open>ref.child(a).child(b)\<close>). A missing
  child reads as \<open>None\<close>; writing below a node that is not a dictionary replaces it by one.
  The store itself drops a \<open>None\<close> and an empty list or dictionary when it writes; here
  they are kept as written, and read back as the same falsy values.
\<close>

fun jget :: "jval \<Rightarrow> string list \<Rightarrow> jval" where
  "jget v [] = v"
| "jget v (k # ks) = (case v of JDict d \<Rightarrow> jget (dget d k) ks | _ \<Rightarrow> JNull)"

fun jset :: "jval \<Rightarrow> string list \<Rightarrow> jval \<Rightarrow> jval" where
  "jset v [] x = x"
| "jset v (k # ks) x =
     (case v of
        JDict d \<Rightarrow> JDict (AList.update k (jset (dget d k) ks x) d)
      | _ \<Rightarrow> JDict [(k, jset JNull ks x)])"

text \<open>
  \<open>ref.transaction(txn)\<close>: the store hands the current value to \<open>txn\<close> and commits what it
  returns; an exception raised inside \<open>txn\<close> leaves the store as it was and propagates.
\<close>

definition transaction :: "(jval \<Rightarrow> pyerr + jval) \<Rightarrow> jval \<Rightarrow> string list \<Rightarrow> pyerr + jval" where
  "transaction txn tree path =
     (case txn (jget tree path) of Inl e \<Rightarrow> Inl e | Inr v \<Rightarrow> Inr (jset tree path v))"

section \<open>Strings and numbers of Python\<close>

fun starts_with :: "string \<Rightarrow> string \<Rightarrow> bool" where
  "starts_with [] s = True"
| "starts_with (c # cs) [] = False"
| "starts_with (c # cs) (d # ds) = (c = d \<and> starts_with cs ds)"

text \<open>\<open>a in s\<close> for two strings.\<close>

fun is_substring :: "string \<Rightarrow> string \<Rightarrow> bool" where
  "is_substring a [] = (a = [])"
| "is_substring a (d # ds) = (starts_with a (d # ds) \<or> is_substring a ds)"

definition digit_val :: "char \<Rightarrow> nat option" where
  "digit_val c =
     (let n = (of_char c :: nat) in if 48 \<le> n \<and> n \<le> 57 then Some (n - 48) else None)"

definition is_digit :: "char \<Rightarrow> bool" where
  "is_digit c = (digit_val c \<noteq> None)"

text \<open>The value of a string of decimal digits, read left to right.\<close>

fun digits_val :: "nat \<Rightarrow> string \<Rightarrow> nat" where
  "digits_val acc [] = acc"
| "digits_val acc (c # cs) = digits_val (10 * acc + (case digit_val c of Some d \<Rightarrow> d | None \<Rightarrow> 0)) cs"

text \<open>
  A text is a string of characters below 256. Among them \<open>strip\<close> removes the characters
  9 to 13, 28 to 31, 32, 133 and 160; \<open>int\<close> and \<open>float\<close> skip the same ones but for 28 to
  31 around a number.
\<close>

definition is_space :: "char \<Rightarrow> bool" where
  "is_space c =
     (let n = (of_char c :: nat)
      in n = 32 \<or> (9 \<le> n \<and> n \<le> 13) \<or> (28 \<le> n \<and> n \<le> 31) \<or> n = 133 \<or> n = 160)"

definition is_num_space :: "char \<Rightarrow> bool" where
  "is_num_space c =
     (let n = (of_char c :: nat) in n = 32 \<or> (9 \<le> n \<and> n \<le> 13) \<or> n = 133 \<or> n = 160)"

definition py_strip :: "string \<Rightarrow> string" where
  "py_strip s = rev (dropWhile is_space (rev (dropWhile is_space s)))"

definition num_strip :: "string \<Rightarrow> string" where
  "num_strip s = rev (dropWhile is_num_space (rev (dropWhile is_num_space s)))"

text \<open>\<open>int(x)\<close>: truncation of a number, a decimal string with an optional sign.\<close>

definition py_int_str :: "string \<Rightarrow> pyerr + int" where
  "py_int_str s =
     (let t = num_strip s;
          neg = (t \<noteq> [] \<and> hd t = CHR ''-'');
          u = (if t \<noteq> [] \<and> (hd t = CHR ''-'' \<or> hd t = CHR ''+'') then tl t else t)
      in if u \<noteq> [] \<and> list_all is_digit u
         then Inr (if neg then - int (digits_val 0 u) else int (digits_val 0 u))
         else Inl ValueError)"

definition py_int :: "jval \<Rightarrow> pyerr + int" where
  "py_int x =
     (case x of
        JNum r \<Rightarrow> Inr (if 0 \<le> r then \<lfloor>r\<rfloor> else \<lceil>r\<rceil>)
      | JBool b \<Rightarrow> Inr (if b then 1 else 0)
      | JStr s \<Rightarrow> py_int_str s
      | _ \<Rightarrow> Inl TypeError)"

section \<open>The state of the program\<close>

text \<open>
  What the bot has sent and written, in the order it did so: an outbound message to a chat,
  a write of a user's conversation state (the state as it is after the write), or the
  answer to a button press.
\<close>

text \<open>
  The text of a message is kept as what it prints: the order summary for a restaurant, the
  list of restaurants near a user, or a fixed text with the values filled into it.
\<close>

datatype button = FoodButton jval int | PrevButton int | NextButton int

datatype content =
    NewOrder string "(jval \<times> jval \<times> jval) list" jval jval jval
  | Nearby real "(jval \<times> real \<times> string) list"
  | Message string "jval list"
  | Keyboard string "button list"

datatype event =
    Sent jval content
  | StateWritten int jval
  | Answered string

record datetime =
  wall :: int
  tzinfo :: "int option"

record job =
  run_date :: datetime
  target :: jval
  job_order :: string

record world =
  users :: "int \<Rightarrow> jval"
  restaurants :: jval
  orders :: jval
  jobs :: "(string \<times> job) list"
  log :: "event list"

section \<open>Aggregate updates on a restaurant\<close>

text \<open>The updater \<open>txn\<close> of \<open>add_order_to_restaurant\<close>.\<close>

definition add_order_txn :: "string \<Rightarrow> jval \<Rightarrow> pyerr + jval" where
  "add_order_txn order_id current =
     (case current of
        JNull \<Rightarrow> Inr (JList [JStr order_id])
      | JDict d \<Rightarrow>
          (let cur = map snd d
           in Inr (JList (if JStr order_id \<in> set cur then cur else cur @ [JStr order_id])))
      | JList xs \<Rightarrow> Inr (JList (if JStr order_id \<in> set xs then xs else xs @ [JStr order_id]))
      | JStr s \<Rightarrow> (if is_substring order_id s then Inr (JStr s) else Inl AttributeError)
      | JNum r \<Rightarrow> Inl TypeError
      | JBool b \<Rightarrow> Inl TypeError)"

text \<open>The \<open>try\<close> around the transaction prints the exception and goes on.\<close>

definition add_order_to_restaurant :: "string \<Rightarrow> string \<Rightarrow> world \<Rightarrow> world" where
  "add_order_to_restaurant rest_id order_id w =
     (case transaction (add_order_txn order_id) (restaurants w) [rest_id, ''orders''] of
        Inl e \<Rightarrow> w
      | Inr r \<Rightarrow> w\<lparr>restaurants := r\<rparr>)"

text \<open>The updater \<open>txn\<close> of \<open>increment_rest_orders_count\<close>.\<close>

definition increment_txn :: "int \<Rightarrow> jval \<Rightarrow> pyerr + jval" where
  "increment_txn delta current =
     (let cur = (if current = JNull then JNum 0 else current)
      in case py_int cur of
           Inl e \<Rightarrow> Inl e
         | Inr n \<Rightarrow> Inr (JNum (of_int (n + delta))))"

definition increment_rest_orders_count :: "string \<Rightarrow> int \<Rightarrow> world \<Rightarrow> world" where
  "increment_rest_orders_count rest_id delta w =
     (case transaction (increment_txn delta) (restaurants w) [rest_id, ''orders_count''] of
        Inl e \<Rightarrow> w
      | Inr r \<Rightarrow> w\<lparr>restaurants := r\<rparr>)"

text \<open>
  A run of committed transactions on one restaurant: each commit is atomic, so concurrent
  callers amount to some sequence of appends and increments.
\<close>

datatype agg_op = Append string | Incr int

fun commit :: "string \<Rightarrow> agg_op \<Rightarrow> world \<Rightarrow> world" where
  "commit rest_id (Append order_id) w = add_order_to_restaurant rest_id order_id w"
| "commit rest_id (Incr delta) w = increment_rest_orders_count rest_id delta w"

fun commits :: "string \<Rightarrow> agg_op list \<Rightarrow> world \<Rightarrow> world" where
  "commits rest_id [] w = w"
| "commits rest_id (op # ops) w = commits rest_id ops (commit rest_id op w)"

text \<open>The order ids appended and the deltas added by a run.\<close>

fun appended :: "agg_op list \<Rightarrow> string list" where
  "appended [] = []"
| "appended (Append order_id # ops) = order_id # appended ops"
| "appended (Incr delta # ops) = appended ops"

fun deltas :: "agg_op list \<Rightarrow> int" where
  "deltas [] = 0"
| "deltas (Append order_id # ops) = deltas ops"
| "deltas (Incr delta # ops) = delta + deltas ops"

text \<open>The stored list as a plain sequence, and the stored counter as a number.\<close>

definition orders_list :: "jval \<Rightarrow> jval list" where
  "orders_list v = (case v of JList xs \<Rightarrow> xs | JDict d \<Rightarrow> map snd d | _ \<Rightarrow> [])"

definition is_orders_value :: "jval \<Rightarrow> bool" where
  "is_orders_value v = (case v of JNull \<Rightarrow> True | JList xs \<Rightarrow> True | JDict d \<Rightarrow> True | _ \<Rightarrow> False)"

definition counter_value :: "jval \<Rightarrow> int option" where
  "counter_value v =
     (case v of JNull \<Rightarrow> Some 0 | JNum r \<Rightarrow> (if r = of_int \<lfloor>r\<rfloor> then Some \<lfloor>r\<rfloor> else None) | _ \<Rightarrow> None)"

definition rest_orders :: "world \<Rightarrow> string \<Rightarrow> jval" where
  "rest_orders w rest_id = jget (restaurants w) [rest_id, ''orders'']"

definition rest_orders_count :: "world \<Rightarrow> string \<Rightarrow> jval" where
  "rest_orders_count w rest_id = jget (restaurants w) [rest_id, ''orders_count'']"

section \<open>Notification of a restaurant\<close>

text \<open>
  Iterating over a value in a \<open>for\<close> loop: a list gives its elements, a dictionary its
  keys, a string its characters; nothing else is iterable.
\<close>

definition py_iter :: "jval \<Rightarrow> pyerr + jval list" where
  "py_iter x =
     (case x of
        JList xs \<Rightarrow> Inr xs
      | JDict d \<Rightarrow> Inr (map (\<lambda>kv. JStr (fst kv)) d)
      | JStr s \<Rightarrow> Inr (map (\<lambda>c. JStr [c]) s)
      | _ \<Rightarrow> Inl TypeError)"

text \<open>One line of the order summary reads \<open>item['name']\<close>, \<open>item['qty']\<close>, \<open>item['price']\<close>.\<close>

definition order_line :: "jval \<Rightarrow> pyerr + (jval \<times> jval \<times> jval)" where
  "order_line item =
     (case py_item item ''name'' of
        Inl e \<Rightarrow> Inl e
      | Inr n \<Rightarrow>
          (case py_item item ''qty'' of
             Inl e \<Rightarrow> Inl e
           | Inr q \<Rightarrow>
               (case py_item item ''price'' of
                  Inl e \<Rightarrow> Inl e
                | Inr p \<Rightarrow> Inr (n, q, p))))"

fun order_lines :: "jval list \<Rightarrow> pyerr + (jval \<times> jval \<times> jval) list" where
  "order_lines [] = Inr []"
| "order_lines (item # items) =
     (case order_line item of
        Inl e \<Rightarrow> Inl e
      | Inr l \<Rightarrow> (case order_lines items of Inl e \<Rightarrow> Inl e | Inr ls \<Rightarrow> Inr (l # ls)))"

text \<open>
  The text of the notification, built from \<open>order.get("items", [])\<close>, \<open>order['total_price']\<close>,
  \<open>order['user_name']\<close> and \<open>order['phone']\<close>, with its "mark served" button. The rendering
  is kept as the values it prints.
\<close>

definition render_order :: "string \<Rightarrow> jdict \<Rightarrow> pyerr + content" where
  "render_order order_id order =
     (case py_iter (case map_of order ''items'' of None \<Rightarrow> JList [] | Some v \<Rightarrow> v) of
        Inl e \<Rightarrow> Inl e
      | Inr items \<Rightarrow>
          (case order_lines items of
             Inl e \<Rightarrow> Inl e
           | Inr ls \<Rightarrow>
               (case py_item (JDict order) ''total_price'' of
                  Inl e \<Rightarrow> Inl e
                | Inr tot \<Rightarrow>
                    (case py_item (JDict order) ''user_name'' of
                       Inl e \<Rightarrow> Inl e
                     | Inr name \<Rightarrow>
                         (case py_item (JDict order) ''phone'' of
                            Inl e \<Rightarrow> Inl e
                          | Inr phone \<Rightarrow> Inr (NewOrder order_id ls tot name phone))))))"

definition send_message :: "jval \<Rightarrow> content \<Rightarrow> world \<Rightarrow> world" where
  "send_message chat_id c w = w\<lparr>log := log w @ [Sent chat_id c]\<rparr>"

text \<open>
  \<open>send_restaurant_notification\<close>: the body runs inside \<open>try\<close>, and the handler of every
  exception only prints it, so an exception ends the call with nothing sent.
\<close>

definition notification_body :: "jval \<Rightarrow> string \<Rightarrow> world \<Rightarrow> pyerr + world" where
  "notification_body restaurant_chat_id order_id w =
     (let order = jget (orders w) [order_id]
      in if \<not> truthy order then Inr w
         else case order of
                JDict d \<Rightarrow>
                  (if dget d ''status'' = JStr ''served'' then Inr w
                   else case render_order order_id d of
                          Inl e \<Rightarrow> Inl e
                        | Inr c \<Rightarrow> Inr (send_message restaurant_chat_id c w))
              | _ \<Rightarrow> Inl AttributeError)"

definition send_restaurant_notification :: "jval \<Rightarrow> string \<Rightarrow> world \<Rightarrow> world" where
  "send_restaurant_notification restaurant_chat_id order_id w =
     (case notification_body restaurant_chat_id order_id w of Inl e \<Rightarrow> w | Inr w' \<Rightarrow> w')"

section \<open>Scheduling and restoring notifications\<close>

text \<open>
  What the program takes from outside: the clock, the ids it draws at random, and the
  date parser and formatter of its libraries. \<open>parse_date\<close> gives \<open>None\<close> where
  \<open>dateparser.parse\<close> raises or returns nothing.
\<close>

record env =
  now :: datetime
  new_order_id :: string
  new_rest_id :: string
  new_food_id :: string
  parse_date :: "string \<Rightarrow> datetime option"
  isoformat :: "datetime \<Rightarrow> string"

definition as_utc :: "datetime \<Rightarrow> datetime" where
  "as_utc dt = (if tzinfo dt = None then dt\<lparr>tzinfo := Some 0\<rparr> else dt)"

text \<open>
  \<open>scheduler.add_job(..., id="order_" + order_id, replace_existing=True)\<close>: the job table
  holds one job per id, and adding under an id that exists replaces the job.
\<close>

definition job_id :: "string \<Rightarrow> string" where
  "job_id order_id = ''order_'' @ order_id"

definition schedule_order_notification :: "string \<Rightarrow> datetime \<Rightarrow> jval \<Rightarrow> world \<Rightarrow> world" where
  "schedule_order_notification order_id run_at_dt restaurant_chat_id w =
     w\<lparr>jobs := AList.update (job_id order_id)
                  \<lparr>run_date = as_utc run_at_dt, target = restaurant_chat_id, job_order = order_id\<rparr>
                  (jobs w)\<rparr>"

text \<open>
  \<open>get_restaurant_ref(x).get()\<close> for a value \<open>x\<close> read from a record. The program only
  writes string ids; any other value names no restaurant it has written.
\<close>

definition get_restaurant :: "world \<Rightarrow> jval \<Rightarrow> jval" where
  "get_restaurant w x = (case x of JStr rid \<Rightarrow> jget (restaurants w) [rid] | _ \<Rightarrow> JNull)"

text \<open>\<open>rest.get("chat_id") or rest.get("manager_chat_id")\<close> on \<open>rest = ... or {}\<close>.\<close>

definition rest_chat_id :: "jval \<Rightarrow> pyerr + jval" where
  "rest_chat_id r =
     (let rest = (if truthy r then r else JDict [])
      in case py_get rest ''chat_id'' of
           Inl e \<Rightarrow> Inl e
         | Inr c \<Rightarrow> (if truthy c then Inr c else py_get rest ''manager_chat_id''))"

text \<open>The \<open>try\<close> block of \<open>restore_scheduled_orders\<close> for one scheduled order.\<close>

definition restore_try :: "env \<Rightarrow> string \<Rightarrow> jval \<Rightarrow> world \<Rightarrow> pyerr + world" where
  "restore_try ev oid od w =
     (case py_item od ''scheduled_for'' of
        Inl e \<Rightarrow> Inl e
      | Inr (JStr s) \<Rightarrow>
          (case parse_date ev s of
             None \<Rightarrow> Inl ValueError
           | Some run_at \<Rightarrow>
               (case py_item od ''restaurant_id'' of
                  Inl e \<Rightarrow> Inl e
                | Inr rid \<Rightarrow>
                    (case rest_chat_id (get_restaurant w rid) of
                       Inl e \<Rightarrow> Inl e
                     | Inr chat \<Rightarrow> Inr (schedule_order_notification oid run_at chat w))))
      | Inr _ \<Rightarrow> Inl TypeError)"

text \<open>The \<open>except\<close> branch prints the exception and the loop goes on.\<close>

definition restore_step :: "env \<Rightarrow> string \<Rightarrow> jval \<Rightarrow> world \<Rightarrow> world" where
  "restore_step ev oid od w = (case restore_try ev oid od w of Inl e \<Rightarrow> w | Inr w' \<Rightarrow> w')"



text \<open>
  The claim about restoring, in its own words. An order is scheduled when its status says
  so; its stored run date is what the date parser reads from \<open>scheduled_for\<close>, taken as UTC
  when it names no zone; the instant of a date is its wall clock less the offset of its zone.
\<close>

definition is_scheduled :: "jval \<Rightarrow> bool" where
  "is_scheduled od = (case od of JDict x \<Rightarrow> dget x ''status'' = JStr ''scheduled'' | _ \<Rightarrow> False)"

definition stored_run_date :: "env \<Rightarrow> jval \<Rightarrow> datetime option" where
  "stored_run_date ev od =
     (case od of
        JDict x \<Rightarrow>
          (case map_of x ''scheduled_for'' of
             Some (JStr s) \<Rightarrow> map_option as_utc (parse_date ev s)
           | _ \<Rightarrow> None)
      | _ \<Rightarrow> None)"





text \<open>The job that one pass of the restoring loop registers for an order, if any.\<close>

definition restored_job :: "env \<Rightarrow> world \<Rightarrow> string \<times> jval \<Rightarrow> (string \<times> job) option" where
  "restored_job ev w p =
     (if \<not> is_scheduled (snd p) then None
      else case restore_try ev (fst p) (snd p) w of
             Inl e \<Rightarrow> None
           | Inr w' \<Rightarrow>
               (case map_of (jobs w') (job_id (fst p)) of
                  None \<Rightarrow> None
                | Some j \<Rightarrow> Some (job_id (fst p), j)))"




section \<open>Search by location\<close>

definition radians :: "real \<Rightarrow> real" where
  "radians x = x * pi / 180"

definition haversine :: "real \<Rightarrow> real \<Rightarrow> real \<Rightarrow> real \<Rightarrow> real" where
  "haversine lon1 lat1 lon2 lat2 =
     (let lo1 = radians lon1; la1 = radians lat1; lo2 = radians lon2; la2 = radians lat2;
          dlon = lo2 - lo1;
          dlat = la2 - la1;
          a = (sin (dlat / 2))\<^sup>2 + cos la1 * cos la2 * (sin (dlon / 2))\<^sup>2;
          c = 2 * arcsin (sqrt a)
      in 6371 * c)"

text \<open>\<open>math.radians\<close> takes a number (a boolean counts as one) and nothing else.\<close>

definition py_number :: "jval \<Rightarrow> pyerr + real" where
  "py_number x =
     (case x of
        JNum r \<Rightarrow> Inr (of_rat r)
      | JBool b \<Rightarrow> Inr (if b then 1 else 0)
      | _ \<Rightarrow> Inl TypeError)"

text \<open>
  The body of the loop over the restaurants: \<open>None\<close> when the restaurant is passed over
  (no location, or farther than the radius), the triple that is collected otherwise.
\<close>

definition near_entry ::
  "real \<Rightarrow> real \<Rightarrow> real \<Rightarrow> string \<Rightarrow> jval \<Rightarrow> pyerr + (real \<times> string \<times> jval) option" where
  "near_entry lat lon radius_km rid r =
     (case py_get r ''location'' of
        Inl e \<Rightarrow> Inl e
      | Inr pos \<Rightarrow>
          (if \<not> truthy pos then Inr None
           else case py_get pos ''lon'' of
                  Inl e \<Rightarrow> Inl e
                | Inr plon \<Rightarrow>
                    (case py_get pos ''lat'' of
                       Inl e \<Rightarrow> Inl e
                     | Inr plat \<Rightarrow>
                         (case py_number plon of
                            Inl e \<Rightarrow> Inl e
                          | Inr lon2 \<Rightarrow>
                              (case py_number plat of
                                 Inl e \<Rightarrow> Inl e
                               | Inr lat2 \<Rightarrow>
                                   (let dst = haversine lon lat lon2 lat2
                                    in if dst \<le> radius_km then Inr (Some (dst, rid, r))
                                       else Inr None))))))"

fun near_loop ::
  "real \<Rightarrow> real \<Rightarrow> real \<Rightarrow> (string \<times> jval) list \<Rightarrow> pyerr + (real \<times> string \<times> jval) list" where
  "near_loop lat lon radius_km [] = Inr []"
| "near_loop lat lon radius_km ((rid, r) # docs) =
     (case near_entry lat lon radius_km rid r of
        Inl e \<Rightarrow> Inl e
      | Inr x \<Rightarrow>
          (case near_loop lat lon radius_km docs of
             Inl e \<Rightarrow> Inl e
           | Inr ds \<Rightarrow> Inr (case x of None \<Rightarrow> ds | Some t \<Rightarrow> t # ds)))"

text \<open>The lines of the reply: \<open>r['name']\<close>, the distance and the id of each restaurant.\<close>

fun near_lines :: "(real \<times> string \<times> jval) list \<Rightarrow> pyerr + (jval \<times> real \<times> string) list" where
  "near_lines [] = Inr []"
| "near_lines ((dst, rid, r) # ds) =
     (case py_item r ''name'' of
        Inl e \<Rightarrow> Inl e
      | Inr n \<Rightarrow> (case near_lines ds of Inl e \<Rightarrow> Inl e | Inr ls \<Rightarrow> Inr ((n, dst, rid) # ls)))"

definition chat_of :: "int \<Rightarrow> jval" where
  "chat_of user_id = JNum (of_int user_id)"

definition find_restaurants_near_user :: "int \<Rightarrow> real \<Rightarrow> real \<Rightarrow> real \<Rightarrow> world \<Rightarrow> pyerr + world" where
  "find_restaurants_near_user user_id lat lon radius_km w =
     (case (if truthy (restaurants w) then restaurants w else JDict []) of
        JDict docs \<Rightarrow>
          (case near_loop lat lon radius_km docs of
             Inl e \<Rightarrow> Inl e
           | Inr ds \<Rightarrow>
               (let distances = sort_key fst ds
                in if distances = []
                   then Inr (send_message (chat_of user_id)
                               (Message ''No restaurants found within {radius_km} km.'' []) w)
                   else case near_lines (take 15 distances) of
                          Inl e \<Rightarrow> Inl e
                        | Inr ls \<Rightarrow> Inr (send_message (chat_of user_id) (Nearby radius_km ls) w)))
      | _ \<Rightarrow> Inl AttributeError)"

text \<open>
  The claim in its own words: the distance from the user to a restaurant's stored location,
  if it has one, and the restaurants within the radius.
\<close>

definition stored_distance :: "real \<Rightarrow> real \<Rightarrow> jval \<Rightarrow> real option" where
  "stored_distance lat lon r =
     (case r of
        JDict x \<Rightarrow>
          (case dget x ''location'' of
             JDict pos \<Rightarrow>
               (case (dget pos ''lon'', dget pos ''lat'') of
                  (JNum plon, JNum plat) \<Rightarrow> Some (haversine lon lat (of_rat plon) (of_rat plat))
                | _ \<Rightarrow> None)
           | _ \<Rightarrow> None)
      | _ \<Rightarrow> None)"

definition within_radius :: "real \<Rightarrow> real \<Rightarrow> real \<Rightarrow> (string \<times> jval) list \<Rightarrow> (real \<times> string \<times> jval) list" where
  "within_radius lat lon radius_km docs =
     concat (map (\<lambda>(rid, r). case stored_distance lat lon r of
                                None \<Rightarrow> []
                              | Some dst \<Rightarrow> (if dst \<le> radius_km then [(dst, rid, r)] else [])) docs)"

text \<open>A restaurant record as the program writes it: a name, and a location that is absent
  or a pair of numbers.\<close>

definition restaurant_ok :: "jval \<Rightarrow> bool" where
  "restaurant_ok r =
     (case r of
        JDict x \<Rightarrow>
          map_of x ''name'' \<noteq> None
          \<and> (case dget x ''location'' of
               JNull \<Rightarrow> True
             | JDict pos \<Rightarrow>
                 pos \<noteq> [] \<and> (case (dget pos ''lon'', dget pos ''lat'') of
                                (JNum plon, JNum plat) \<Rightarrow> True
                              | _ \<Rightarrow> False)
             | _ \<Rightarrow> False)
      | _ \<Rightarrow> False)"

text \<open>The name printed for a restaurant, and the line of the reply for a collected triple.\<close>

definition rest_name :: "jval \<Rightarrow> jval" where
  "rest_name r = (case r of JDict x \<Rightarrow> dget x ''name'' | _ \<Rightarrow> JNull)"

definition near_line :: "real \<times> string \<times> jval \<Rightarrow> jval \<times> real \<times> string" where
  "near_line t = (rest_name (snd (snd t)), fst t, fst (snd t))"

section \<open>Text of messages\<close>

definition lower_char :: "char \<Rightarrow> char" where
  "lower_char c =
     (let n = (of_char c :: nat)
      in if (65 \<le> n \<and> n \<le> 90) \<or> (192 \<le> n \<and> n \<le> 222 \<and> n \<noteq> 215) then char_of (n + 32) else c)"

text \<open>\<open>s.lower()\<close>: the letters A to Z and the capital letters from 192 to 222.\<close>

definition py_lower :: "string \<Rightarrow> string" where
  "py_lower s = map lower_char s"

text \<open>\<open>s.isdigit()\<close>: not empty and digits only, the digits being 0 to 9 and the raised
  digits 178, 179 and 185, which \<open>float\<close> does not read.\<close>

definition is_digit_char :: "char \<Rightarrow> bool" where
  "is_digit_char c = (let n = (of_char c :: nat) in (48 \<le> n \<and> n \<le> 57) \<or> n = 178 \<or> n = 179 \<or> n = 185)"

definition py_isdigit :: "string \<Rightarrow> bool" where
  "py_isdigit s = (s \<noteq> [] \<and> list_all is_digit_char s)"

text \<open>
  \<open>float(s)\<close> on a plain decimal: blanks around it, an optional sign, digits with at most
  one point and at least one digit. Everything else is a \<open>ValueError\<close> here; the spellings
  with an exponent, with underscores and of infinity and not-a-number, which Python also
  reads, are not modelled.
\<close>

definition py_float_str :: "string \<Rightarrow> pyerr + rat" where
  "py_float_str s =
     (let t = num_strip s;
          neg = (t \<noteq> [] \<and> hd t = CHR ''-'');
          u = (if t \<noteq> [] \<and> (hd t = CHR ''-'' \<or> hd t = CHR ''+'') then tl t else t);
          ip = takeWhile (\<lambda>c. c \<noteq> CHR ''.'') u;
          rest = dropWhile (\<lambda>c. c \<noteq> CHR ''.'') u;
          fp = (if rest = [] then [] else tl rest)
      in if list_all is_digit ip \<and> list_all is_digit fp \<and> (ip \<noteq> [] \<or> fp \<noteq> [])
         then (let v = of_nat (digits_val 0 ip) + of_nat (digits_val 0 fp) / 10 ^ length fp
               in Inr (if neg then - v else v))
         else Inl ValueError)"

definition py_float :: "jval \<Rightarrow> pyerr + rat" where
  "py_float x =
     (case x of
        JNum r \<Rightarrow> Inr r
      | JBool b \<Rightarrow> Inr (if b then 1 else 0)
      | JStr s \<Rightarrow> py_float_str s
      | _ \<Rightarrow> Inl TypeError)"

text \<open>\<open>parse_price\<close>: \<open>None\<close> unless the text, without blanks around it and without commas,
  is digits with at most one point.\<close>

definition parse_price :: "string \<Rightarrow> pyerr + rat option" where
  "parse_price text =
     (let t = filter (\<lambda>c. c \<noteq> CHR '','') (py_strip text)
      in if \<not> py_isdigit (remove1 (CHR ''.'') t) then Inr None
         else case py_float_str t of Inl e \<Rightarrow> Inl e | Inr r \<Rightarrow> Inr (Some r))"

text \<open>\<open>str(n)\<close> for an integer.\<close>

function str_nat :: "nat \<Rightarrow> string" where
  "str_nat n = (if n < 10 then [char_of (48 + n)] else str_nat (n div 10) @ [char_of (48 + n mod 10)])"
  by pat_completeness auto
termination
  by (relation "measure id") auto

definition py_str_int :: "int \<Rightarrow> string" where
  "py_str_int i = (if i < 0 then CHR ''-'' # str_nat (nat (- i)) else str_nat (nat i))"

section \<open>Conversation state\<close>

text \<open>\<open>get_user_state\<close>: the stored state, or the empty dictionary.\<close>

definition get_user_state :: "int \<Rightarrow> world \<Rightarrow> jval" where
  "get_user_state user_id w =
     (let s = jget (users w user_id) [''state''] in if truthy s then s else JDict [])"

text \<open>
  \<open>ref.update(value)\<close> of the store's client: it refuses an empty dictionary with a
  \<open>ValueError\<close>, and otherwise sets each given child and keeps the others.
\<close>

definition ref_update :: "jval \<Rightarrow> jdict \<Rightarrow> pyerr + jval" where
  "ref_update node d =
     (if d = [] then Inl ValueError
      else Inr (fold (\<lambda>kv n. jset n [fst kv] (snd kv)) d node))"

definition write_state :: "int \<Rightarrow> jval \<Rightarrow> world \<Rightarrow> world" where
  "write_state user_id s w =
     w\<lparr>users := (users w)(user_id := jset (users w user_id) [''state''] s),
       log := log w @ [StateWritten user_id s]\<rparr>"

text \<open>\<open>set_user_state\<close>: \<open>update\<close>, and \<open>set\<close> when \<open>update\<close> raises.\<close>

definition set_user_state :: "int \<Rightarrow> jdict \<Rightarrow> world \<Rightarrow> world" where
  "set_user_state user_id state_dict w =
     (case ref_update (jget (users w user_id) [''state'']) state_dict of
        Inr s \<Rightarrow> write_state user_id s w
      | Inl e \<Rightarrow> write_state user_id (JDict state_dict) w)"

definition clear_user_state :: "int \<Rightarrow> world \<Rightarrow> world" where
  "clear_user_state user_id w = write_state user_id (JDict []) w"

section \<open>Commands\<close>

record message =
  from_id :: int
  from_name :: string
  msg_text :: "string option"

text \<open>
  The result of a handler: it returned, it raised (with the store as it was then), or the
  event went to a part of the handler that is not modelled here: another branch of the chain,
  or a restaurant id that is not a string, whose path in the store is its printed form.
\<close>

datatype outcome = Done world | Raised pyerr world | Other_branch

text \<open>\<open>handle_start\<close>, the handler of \<open>/start\<close>.\<close>

definition handle_start :: "message \<Rightarrow> world \<Rightarrow> outcome" where
  "handle_start m w =
     (let user_data = jget (users w (from_id m)) []
      in if \<not> truthy user_data
         then Done (set_user_state (from_id m) [(''awaiting_contact'', JBool True)]
                (send_message (chat_of (from_id m))
                   (Message ''Welcome! Please share your contact to continue.'' []) w))
         else case py_get user_data ''phone'' of
                Inl e \<Rightarrow> Raised e w
              | Inr phone \<Rightarrow>
                  (if \<not> truthy phone
                   then Done (set_user_state (from_id m) [(''awaiting_contact'', JBool True)]
                          (send_message (chat_of (from_id m))
                             (Message ''Welcome! Please share your contact to continue.'' []) w))
                   else Done (set_user_state (from_id m) []
                          (send_message (chat_of (from_id m))
                             (Message ''Welcome back! Use /menu to continue.'' []) w))))"

text \<open>\<open>cmd_add\<close>, the handler of \<open>/add\<close>.\<close>

definition cmd_add :: "message \<Rightarrow> world \<Rightarrow> outcome" where
  "cmd_add m w =
     Done (set_user_state (from_id m) [(''add_flow'', JBool True)]
       (send_message (chat_of (from_id m)) (Message ''What do you want to add?'' []) w))"

section \<open>The handler of text messages\<close>

text \<open>\<open>x[k] = v\<close> on a value: only a dictionary takes a string key.\<close>

definition py_setitem :: "jval \<Rightarrow> string \<Rightarrow> jval \<Rightarrow> pyerr + jdict" where
  "py_setitem x k v = (case x of JDict d \<Rightarrow> Inr (AList.update k v d) | _ \<Rightarrow> Inl TypeError)"

text \<open>The branch \<open>add_food_mode\<close>: name, then price, of a food added to a restaurant.
  \<open>None\<close> means that the branch did not return and the chain goes on.\<close>

definition add_food_mode_branch ::
  "env \<Rightarrow> message \<Rightarrow> string \<Rightarrow> jdict \<Rightarrow> world \<Rightarrow> outcome option" where
  "add_food_mode_branch ev m text state w =
     (let user_id = from_id m
      in case map_of state ''rid'' of
           None \<Rightarrow> Some (Raised KeyError w)
         | Some rid \<Rightarrow>
             (case map_of state ''step'' of
                None \<Rightarrow> Some (Raised KeyError w)
              | Some step \<Rightarrow>
                  if step = JStr ''name''
                  then Some (Done (send_message (chat_of user_id) (Message ''Send food price:'' [])
                          (set_user_state user_id
                             (AList.update ''step'' (JStr ''price'')
                                (AList.update ''food'' (JDict [(''name'', JStr text)]) state)) w)))
                  else if step = JStr ''price''
                  then (case msg_text m of
                          None \<Rightarrow> Some (Raised AttributeError w)
                        | Some raw \<Rightarrow>
                            (case parse_price raw of
                               Inl e \<Rightarrow> Some (Raised e w)
                             | Inr None \<Rightarrow>
                                 Some (Done (send_message (chat_of user_id)
                                   (Message ''Invalid price. Send a number like 5 or 5.50'' []) w))
                             | Inr (Some price) \<Rightarrow>
                                 if price \<le> 0
                                 then Some (Done (send_message (chat_of user_id)
                                        (Message ''Invalid price. Send a number like 5 or 5.50'' []) w))
                                 else (case map_of state ''food'' of
                                         None \<Rightarrow> Some (Raised KeyError w)
                                       | Some food \<Rightarrow>
                                           (case py_setitem food ''price'' (JNum price) of
                                              Inl e \<Rightarrow> Some (Raised e w)
                                            | Inr food' \<Rightarrow>
                                                (case rid of
                                                   JStr r \<Rightarrow>
                                                     (let w1 = w\<lparr>restaurants :=
                                                                 jset (restaurants w) [r, ''foods'', new_food_id ev]
                                                                   (JDict food')\<rparr>;
                                                          w2 = clear_user_state user_id w1
                                                      in case map_of food' ''name'' of
                                                           None \<Rightarrow> Some (Raised KeyError w2)
                                                         | Some n \<Rightarrow>
                                                             Some (Done (send_message (chat_of user_id)
                                                               (Message ''{name} added to restaurant.'' [n]) w2)))
                                                 | _ \<Rightarrow> Some Other_branch)))))
                  else None))"

text \<open>\<open>any(r.get("name", "").lower() == name.lower() for r in all_rest.values())\<close>.\<close>

fun name_taken :: "string \<Rightarrow> jval list \<Rightarrow> pyerr + bool" where
  "name_taken name [] = Inr False"
| "name_taken name (r # rs) =
     (case r of
        JDict d \<Rightarrow>
          (case (case map_of d ''name'' of None \<Rightarrow> JStr [] | Some v \<Rightarrow> v) of
             JStr s \<Rightarrow> (if py_lower s = py_lower name then Inr True else name_taken name rs)
           | _ \<Rightarrow> Inl AttributeError)
      | _ \<Rightarrow> Inl AttributeError)"

text \<open>The branch \<open>reg_rest_step\<close>: a manager registers a restaurant. Only the step
  \<open>name\<close> is modelled.\<close>

definition reg_rest_branch ::
  "env \<Rightarrow> message \<Rightarrow> string \<Rightarrow> jdict \<Rightarrow> world \<Rightarrow> outcome option" where
  "reg_rest_branch ev m text state w =
     (let user_id = from_id m; step = dget state ''reg_rest_step''
      in case map_of state ''new_rest'' of
           None \<Rightarrow> Some (Raised KeyError w)
         | Some data \<Rightarrow>
             if step = JStr ''name''
             then (let name = py_strip text
                   in case (if truthy (restaurants w) then restaurants w else JDict []) of
                        JDict all_rest \<Rightarrow>
                          (case name_taken name (map snd all_rest) of
                             Inl e \<Rightarrow> Some (Raised e w)
                           | Inr True \<Rightarrow>
                               Some (Done (send_message (chat_of user_id)
                                 (Message ''A restaurant with this name already exists. Send a different name.'' []) w))
                           | Inr False \<Rightarrow>
                               (case py_setitem data ''name'' (JStr name) of
                                  Inl e \<Rightarrow> Some (Raised e w)
                                | Inr data' \<Rightarrow>
                                    Some (Done (send_message (chat_of user_id) (Message ''Now choose foods:'' [])
                                      (set_user_state user_id
                                         [(''reg_rest_step'', JStr ''foods''), (''new_rest'', JDict data')] w)))))
                      | _ \<Rightarrow> Some (Raised AttributeError w))
             else if step = JStr ''custom_food'' \<or> step = JStr ''description'' then Some Other_branch
             else None)"

text \<open>The branch \<open>add_rest\<close>: an admin creates a restaurant. Only the step \<open>name\<close> is
  modelled.\<close>

definition add_rest_branch ::
  "env \<Rightarrow> message \<Rightarrow> string \<Rightarrow> jdict \<Rightarrow> world \<Rightarrow> outcome option" where
  "add_rest_branch ev m text state w =
     (let user_id = from_id m;
          data = (case map_of state ''data'' of None \<Rightarrow> JDict [] | Some v \<Rightarrow> v);
          step = dget state ''step''
      in if step = JStr ''name''
         then (case py_setitem data ''name'' (JStr text) of
                 Inl e \<Rightarrow> Some (Raised e w)
               | Inr data' \<Rightarrow>
                   Some (Done (send_message (chat_of user_id) (Message ''Send restaurant phone number:'' [])
                     (set_user_state user_id
                        [(''add_rest'', JBool True), (''step'', JStr ''phone''), (''data'', JDict data')] w))))
         else if step = JStr ''phone'' \<or> step = JStr ''manager'' then Some Other_branch
         else None)"

text \<open>The updater \<open>txn\<close> of the branch \<open>awaiting_food_price\<close>:
  \<open>any(f["name"] == food["name"] for f in current)\<close>, then \<open>current.append(food)\<close>.\<close>

fun same_name_in :: "jval \<Rightarrow> jval list \<Rightarrow> pyerr + bool" where
  "same_name_in food [] = Inr False"
| "same_name_in food (f # fs) =
     (case py_item f ''name'' of
        Inl e \<Rightarrow> Inl e
      | Inr a \<Rightarrow>
          (case py_item food ''name'' of
             Inl e \<Rightarrow> Inl e
           | Inr b \<Rightarrow> (if a = b then Inr True else same_name_in food fs)))"

definition food_txn :: "jval \<Rightarrow> jval \<Rightarrow> pyerr + jval" where
  "food_txn food current =
     (let cur = (if current = JNull then JList [] else current)
      in case py_iter cur of
           Inl e \<Rightarrow> Inl e
         | Inr fs \<Rightarrow>
             (case same_name_in food fs of
                Inl e \<Rightarrow> Inl e
              | Inr True \<Rightarrow> Inr cur
              | Inr False \<Rightarrow>
                  (case cur of JList xs \<Rightarrow> Inr (JList (xs @ [food])) | _ \<Rightarrow> Inl AttributeError)))"

text \<open>The branch \<open>awaiting_food_price\<close>: the price of a food copied into a restaurant.\<close>

definition awaiting_food_price_branch ::
  "env \<Rightarrow> message \<Rightarrow> string \<Rightarrow> jdict \<Rightarrow> world \<Rightarrow> outcome" where
  "awaiting_food_price_branch ev m text state w =
     (let user_id = from_id m
      in case (case msg_text m of None \<Rightarrow> Inl TypeError | Some raw \<Rightarrow> py_float_str raw) of
           Inl e \<Rightarrow> Done (send_message (chat_of user_id) (Message ''Invalid price.'' []) w)
         | Inr price \<Rightarrow>
             (case map_of state ''rid'' of
                None \<Rightarrow> Raised KeyError w
              | Some rid \<Rightarrow>
                  (case map_of state ''food_data'' of
                     None \<Rightarrow> Raised KeyError w
                   | Some food_data \<Rightarrow>
                       (case py_setitem food_data ''price'' (JNum price) of
                          Inl e \<Rightarrow> Raised e w
                        | Inr food \<Rightarrow>
                            (case rid of
                               JStr r \<Rightarrow>
                                 (case transaction (food_txn (JDict food)) (restaurants w) [r, ''foods''] of
                                    Inl e \<Rightarrow> Raised e w
                                  | Inr rs \<Rightarrow>
                                      (let w2 = clear_user_state user_id (w\<lparr>restaurants := rs\<rparr>)
                                       in case map_of food ''name'' of
                                            None \<Rightarrow> Raised KeyError w2
                                          | Some n \<Rightarrow>
                                              Done (send_message (chat_of user_id)
                                                (Message ''{name} added to restaurant.'' [n]) w2)))
                             | _ \<Rightarrow> Other_branch)))))"

text \<open>
  The branch of the schedule step. \<open>RTDB_TIMESTAMP\<close> is the marker that the store replaces
  by its own time.
\<close>

definition RTDB_TIMESTAMP :: jval where
  "RTDB_TIMESTAMP = JDict [(''.sv'', JStr ''timestamp'')]"

definition schedule_branch ::
  "env \<Rightarrow> message \<Rightarrow> string \<Rightarrow> jdict \<Rightarrow> world \<Rightarrow> outcome" where
  "schedule_branch ev m text state w =
     (let user_id = from_id m;
          pending = dget state ''pending_order'';
          run = (if py_lower text = ''asap'' \<or> py_lower text = ''now''
                 then Some ((now ev)\<lparr>tzinfo := Some 0\<rparr>)
                 else map_option as_utc (parse_date ev text))
      in case run of
           None \<Rightarrow> Done (send_message (chat_of user_id)
                     (Message ''Invalid time. Use 'ASAP' or YYYY-MM-DD HH:MM.'' []) w)
         | Some run_at \<Rightarrow>
             (let order_id = new_order_id ev
              in case pending of
                   JDict p \<Rightarrow>
                     (let order = AList.update ''created_at'' RTDB_TIMESTAMP
                                    (AList.update ''status'' (JStr ''scheduled'')
                                       (AList.update ''scheduled_for'' (JStr (isoformat ev run_at))
                                          (AList.update ''order_id'' (JStr order_id) p)));
                          w1 = w\<lparr>orders := jset (orders w) [order_id] (JDict order)\<rparr>
                      in case map_of order ''restaurant_id'' of
                           None \<Rightarrow> Raised KeyError w1
                         | Some (JStr rest_id) \<Rightarrow>
                             (let w2 = add_order_to_restaurant rest_id order_id w1;
                                  w3 = increment_rest_orders_count rest_id 1 w2
                              in case rest_chat_id (get_restaurant w3 (JStr rest_id)) of
                                   Inl e \<Rightarrow> Raised e w3
                                 | Inr chat \<Rightarrow>
                                     Done (set_user_state user_id []
                                       (send_message (chat_of user_id)
                                          (Message ''Order placed! ID: {order_id} Scheduled for {run_at}''
                                             [JStr order_id])
                                          (schedule_order_notification order_id run_at chat w3))))
                         | Some _ \<Rightarrow> Other_branch)
                 | _ \<Rightarrow> Raised AttributeError w))"

text \<open>
  The branch \<open>editing_rest\<close>. The texts of its menu (name, location, image, add food,
  cancel) each begin with a pictograph, a character above 255, so no text of this model
  equals one of them; what is left is the step \<open>name\<close>, which writes the restaurant's name.
\<close>

definition editing_rest_branch :: "jdict \<Rightarrow> world \<Rightarrow> outcome option" where
  "editing_rest_branch state w =
     (case map_of state ''rid'' of
        None \<Rightarrow> Some (Raised KeyError w)
      | Some rid \<Rightarrow> if dget state ''edit_step'' = JStr ''name'' then Some Other_branch else None)"

text \<open>
  The branch \<open>add_flow\<close> returns only on the two texts of the add menu, which begin with
  a pictograph as well: on every text of this model the chain goes on.
\<close>

definition add_flow_branch :: "string \<Rightarrow> outcome option" where
  "add_flow_branch text = None"

text \<open>The branch \<open>add_food\<close>: its steps \<open>name\<close>, \<open>ingredients\<close> and \<open>people\<close> are not
  modelled.\<close>

definition add_food_branch :: "jdict \<Rightarrow> world \<Rightarrow> outcome option" where
  "add_food_branch state w =
     (case map_of state ''data'' of
        None \<Rightarrow> Some (Raised KeyError w)
      | Some data \<Rightarrow>
          (case map_of state ''step'' of
             None \<Rightarrow> Some (Raised KeyError w)
           | Some step \<Rightarrow>
               if step = JStr ''name'' \<or> step = JStr ''ingredients'' \<or> step = JStr ''people''
               then Some Other_branch else None))"

text \<open>
  The chain of guards of \<open>general_text_handler\<close>, in the order of the source: the first
  branch that returns ends the call, and a branch that does not return lets the chain go on.
  First the guards from \<open>editing_rest\<close> on.
\<close>

definition chain_tail :: "env \<Rightarrow> message \<Rightarrow> string \<Rightarrow> jdict \<Rightarrow> world \<Rightarrow> outcome" where
  "chain_tail ev m text state w =
     (case (if truthy (dget state ''editing_rest'') then editing_rest_branch state w else None) of
        Some r \<Rightarrow> r
      | None \<Rightarrow>
          if truthy (dget state ''awaiting_edit_search'') then Other_branch
          else if truthy (dget state ''awaiting_food_data'') then Other_branch
          else (case (if truthy (dget state ''reg_rest_step'') then reg_rest_branch ev m text state w
                      else None) of
                  Some r \<Rightarrow> r
                | None \<Rightarrow>
                    (case (if truthy (dget state ''add_flow'') then add_flow_branch text else None) of
                       Some r \<Rightarrow> r
                     | None \<Rightarrow>
                         (case (if truthy (dget state ''add_rest'') \<and> truthy (dget state ''step'')
                                then add_rest_branch ev m text state w else None) of
                            Some r \<Rightarrow> r
                          | None \<Rightarrow>
                              (case (if truthy (dget state ''add_food'') then add_food_branch state w
                                     else None) of
                                 Some r \<Rightarrow> r
                               | None \<Rightarrow>
                                   if truthy (dget state ''awaiting_food_price'')
                                   then awaiting_food_price_branch ev m text state w
                                   else if truthy (dget state ''awaiting_schedule'')
                                           \<and> truthy (dget state ''pending_order'')
                                   then schedule_branch ev m text state w
                                   else Other_branch)))))"

text \<open>
  The whole chain. The branch \<open>awaiting_search\<close> clears the stored state first; it returns
  after a search by restaurant or by food, and lets the chain go on, with the state it read
  at the start, for any other kind of search.
\<close>

definition text_chain :: "env \<Rightarrow> message \<Rightarrow> string \<Rightarrow> jdict \<Rightarrow> world \<Rightarrow> outcome" where
  "text_chain ev m text state w =
     (case (if truthy (dget state ''add_food_mode'') then add_food_mode_branch ev m text state w
            else None) of
        Some r \<Rightarrow> r
      | None \<Rightarrow>
          if truthy (dget state ''awaiting_search'')
          then (if dget state ''awaiting_search_type'' = JStr ''restaurant''
                   \<or> dget state ''awaiting_search_type'' = JStr ''food''
                then Other_branch
                else chain_tail ev m text state (set_user_state (from_id m) [] w))
          else chain_tail ev m text state w)"

text \<open>\<open>message.text.strip() if message.text else ""\<close>.\<close>

definition text_of :: "message \<Rightarrow> string" where
  "text_of m = (case msg_text m of None \<Rightarrow> [] | Some t \<Rightarrow> if t = [] then [] else py_strip t)"

definition general_text_handler :: "env \<Rightarrow> message \<Rightarrow> world \<Rightarrow> outcome" where
  "general_text_handler ev m w =
     (case get_user_state (from_id m) w of
        JDict state \<Rightarrow> text_chain ev m (text_of m) state w
      | _ \<Rightarrow> Raised AttributeError w)"

text \<open>
  A conversation is at the schedule step when its state has \<open>awaiting_schedule\<close> and
  \<open>pending_order\<close> and no earlier branch of the chain acts on a text: the flags of the
  branches that act on every text (the searches, which clear the stored state, the food data
  and the food price) are unset, and each other earlier flag is unset or set with a step
  that its branch passes over.
\<close>

definition at_schedule_step :: "jdict \<Rightarrow> bool" where
  "at_schedule_step state =
     (truthy (dget state ''awaiting_schedule'') \<and> truthy (dget state ''pending_order'')
      \<and> (truthy (dget state ''add_food_mode'')
           \<longrightarrow> map_of state ''rid'' \<noteq> None \<and> map_of state ''step'' \<noteq> None
               \<and> dget state ''step'' \<noteq> JStr ''name'' \<and> dget state ''step'' \<noteq> JStr ''price'')
      \<and> \<not> truthy (dget state ''awaiting_search'')
      \<and> (truthy (dget state ''editing_rest'')
           \<longrightarrow> map_of state ''rid'' \<noteq> None \<and> dget state ''edit_step'' \<noteq> JStr ''name'')
      \<and> \<not> truthy (dget state ''awaiting_edit_search'')
      \<and> \<not> truthy (dget state ''awaiting_food_data'')
      \<and> (truthy (dget state ''reg_rest_step'')
           \<longrightarrow> map_of state ''new_rest'' \<noteq> None
               \<and> dget state ''reg_rest_step'' \<noteq> JStr ''name''
               \<and> dget state ''reg_rest_step'' \<noteq> JStr ''custom_food''
               \<and> dget state ''reg_rest_step'' \<noteq> JStr ''description'')
      \<and> (truthy (dget state ''add_rest'') \<and> truthy (dget state ''step'')
           \<longrightarrow> dget state ''step'' \<noteq> JStr ''name'' \<and> dget state ''step'' \<noteq> JStr ''phone''
               \<and> dget state ''step'' \<noteq> JStr ''manager'')
      \<and> (truthy (dget state ''add_food'')
           \<longrightarrow> map_of state ''data'' \<noteq> None \<and> map_of state ''step'' \<noteq> None
               \<and> dget state ''step'' \<noteq> JStr ''name'' \<and> dget state ''step'' \<noteq> JStr ''ingredients''
               \<and> dget state ''step'' \<noteq> JStr ''people'')
      \<and> \<not> truthy (dget state ''awaiting_food_price''))"

text \<open>The chat that a restaurant's notifications go to: \<open>chat_id\<close>, else \<open>manager_chat_id\<close>.\<close>

definition notify_target :: "world \<Rightarrow> string \<Rightarrow> jval" where
  "notify_target w rest_id =
     (let c = jget (restaurants w) [rest_id, ''chat_id'']
      in if truthy c then c else jget (restaurants w) [rest_id, ''manager_chat_id''])"

section \<open>Button presses\<close>

text \<open>
  The names bound at the top level of the module (imports, assignments and functions), and
  the names bound inside \<open>build_food_page\<close>. A name that is in neither list and is not a
  builtin raises \<open>NameError\<close> when it is read.
\<close>

definition module_names :: "string list" where
  "module_names =
     [''os'', ''uuid'', ''json'', ''datetime'', ''timezone'', ''dateparser'', ''radians'',
          ''cos'', ''sin'', ''asin'', ''sqrt'', ''Flask'', ''request'', ''abort'', ''telebot'',
          ''types'', ''firebase_admin'', ''credentials'', ''rtdb'', ''fb_storage'',
          ''load_dotenv'', ''BackgroundScheduler'', ''TELEGRAM_TOKEN'', ''WEBHOOK_URL'',
          ''FIREBASE_DB_URL'', ''FIREBASE_STORAGE_BUCKET'', ''PORT'', ''ADMINS'', ''ROOT_KEY'',
          ''USERS_KEY'', ''RESTAURANTS_KEY'', ''ORDERS_KEY'', ''FOODS_KEY'', ''PRESET_FOODS'',
          ''bot'', ''app'', ''cred'', ''fb_options'', ''root_ref'', ''foods_ref'',
          ''scheduler'', ''generate_id'', ''make_order_id'', ''make_rest_id'', ''haversine'',
          ''users_ref'', ''restaurants_ref'', ''orders_ref'', ''get_user_ref'',
          ''get_restaurant_ref'', ''get_order_ref'', ''is_manager'', ''RTDB_TIMESTAMP'',
          ''upload_telegram_photo_to_firebase'', ''add_order_to_restaurant'',
          ''remove_order_from_restaurant'', ''increment_rest_orders_count'',
          ''send_restaurant_notification'', ''schedule_order_notification'', ''PAGE_SIZE'',
          ''build_restaurant_page'', ''build_food_page'', ''set_user_state'',
          ''get_user_state'', ''clear_user_state'', ''handle_start'', ''handle_menu'',
          ''handle_contact'', ''handle_location'', ''find_restaurants_near_user'',
          ''get_all_restaurants'', ''get_all_foods'', ''cmd_add'', ''edit_restaurant_cmd'',
          ''delete_restaurant_cmd'', ''add_food_cmd'', ''cmd_list_restaurants'',
          ''get_foods_ref'', ''get_food_ref'', ''parse_price'', ''general_text_handler'',
          ''handle_search_restaurant_query'', ''handle_search_food_query'',
          ''save_restaurant_and_finish'', ''callback_handler'', ''handle_photo'',
          ''try_finalize_pending_rest'', ''attempt_finish_after_state_change'',
          ''restore_scheduled_orders'', ''telegram_webhook'', ''set_webhook'']"

definition build_food_page_locals :: "string list" where
  "build_food_page_locals = [''page'', ''foods'', ''start'', ''end'', ''kb'', ''nav'', ''idx'', ''f'']"

definition read_name :: "string list \<Rightarrow> string \<Rightarrow> pyerr + unit" where
  "read_name locals n =
     (if n \<in> set locals \<or> n \<in> set module_names then Inr () else Inl NameError)"

definition PAGE_SIZE :: int where
  "PAGE_SIZE = 10"

text \<open>\<open>xs[a:b]\<close> on a list, with Python's reading of negative and too large bounds.\<close>

definition slice_bound :: "int \<Rightarrow> int \<Rightarrow> nat" where
  "slice_bound n i = nat (if i < 0 then max 0 (n + i) else min n i)"

definition py_slice :: "'a list \<Rightarrow> int \<Rightarrow> int \<Rightarrow> 'a list" where
  "py_slice xs a b =
     (let n = int (length xs); lo = slice_bound n a; hi = slice_bound n b
      in take (hi - lo) (drop lo xs))"

text \<open>
  What \<open>foods\<close> is inside \<open>build_food_page\<close>. \<open>get_foods_ref()\<close> returns the reference
  to the node, which can be neither sliced nor measured; the other case is the list of foods
  that the function goes on to treat it as.
\<close>

datatype foods_value = Reference | Food_list "jval list"

definition get_foods_ref :: foods_value where
  "get_foods_ref = Reference"

text \<open>The loop over \<open>enumerate(foods[start:end], start=start)\<close>: each button reads
  \<open>f["name"]\<close> and then the names \<open>rid\<close> and \<open>idx\<close>.\<close>

fun food_buttons :: "int \<Rightarrow> jval list \<Rightarrow> pyerr + button list" where
  "food_buttons idx [] = Inr []"
| "food_buttons idx (f # fs) =
     (case py_item f ''name'' of
        Inl e \<Rightarrow> Inl e
      | Inr n \<Rightarrow>
          (case read_name build_food_page_locals ''rid'' of
             Inl e \<Rightarrow> Inl e
           | Inr u \<Rightarrow>
               (case food_buttons (idx + 1) fs of
                  Inl e \<Rightarrow> Inl e
                | Inr bs \<Rightarrow> Inr (FoodButton n idx # bs))))"

definition build_food_page_on :: "foods_value \<Rightarrow> int \<Rightarrow> pyerr + button list" where
  "build_food_page_on foods page =
     (let start = page * PAGE_SIZE; end' = start + PAGE_SIZE
      in case foods of
           Reference \<Rightarrow> Inl TypeError
         | Food_list fs \<Rightarrow>
             (case food_buttons start (py_slice fs start end') of
                Inl e \<Rightarrow> Inl e
              | Inr kb \<Rightarrow>
                  (case (if page > 0
                         then (case read_name build_food_page_locals ''rid'' of
                                 Inl e \<Rightarrow> Inl e
                               | Inr u \<Rightarrow> Inr [PrevButton (page - 1)])
                         else Inr []) of
                     Inl e \<Rightarrow> Inl e
                   | Inr nav1 \<Rightarrow>
                       (case (if end' < int (length fs)
                              then (case read_name build_food_page_locals ''rid'' of
                                      Inl e \<Rightarrow> Inl e
                                    | Inr u \<Rightarrow> Inr [NextButton (page + 1)])
                              else Inr []) of
                          Inl e \<Rightarrow> Inl e
                        | Inr nav2 \<Rightarrow> Inr (kb @ nav1 @ nav2)))))"

definition build_food_page :: "int \<Rightarrow> pyerr + button list" where
  "build_food_page page = build_food_page_on get_foods_ref page"

text \<open>An integer read from a button's payload: a number with no fraction, or a boolean.\<close>

definition py_index :: "jval \<Rightarrow> pyerr + int" where
  "py_index x =
     (case x of
        JNum r \<Rightarrow> (if r = of_int \<lfloor>r\<rfloor> then Inr \<lfloor>r\<rfloor> else Inl TypeError)
      | JBool b \<Rightarrow> Inr (if b then 1 else 0)
      | _ \<Rightarrow> Inl TypeError)"

text \<open>\<open>save_restaurant_and_finish\<close>: the record is written under a fresh id.\<close>

definition save_restaurant_and_finish :: "env \<Rightarrow> int \<Rightarrow> jval \<Rightarrow> world \<Rightarrow> outcome" where
  "save_restaurant_and_finish ev user_id data w =
     (case data of
        JDict d \<Rightarrow>
          (let rest_id = new_rest_id ev;
               d1 = AList.update ''id'' (JStr rest_id) d;
               d2 = AList.update ''foods'' (case map_of d1 ''foods'' of None \<Rightarrow> JList [] | Some v \<Rightarrow> v) d1;
               d3 = AList.update ''created_at'' RTDB_TIMESTAMP d2;
               w1 = w\<lparr>restaurants := jset (restaurants w) [rest_id] (JDict d3)\<rparr>;
               w2 = clear_user_state user_id w1
           in case map_of d3 ''name'' of
                None \<Rightarrow> Raised KeyError w2
              | Some n \<Rightarrow>
                  Done (send_message (chat_of user_id)
                          (Message ''Restaurant {name} added successfully!'' [n]) w2))
      | _ \<Rightarrow> Raised TypeError w)"

text \<open>\<open>next((f for f in foods if f["name"] == fname), None)\<close>.\<close>

fun first_named :: "jval \<Rightarrow> jval list \<Rightarrow> pyerr + jval" where
  "first_named fname [] = Inr JNull"
| "first_named fname (f # fs) =
     (case py_item f ''name'' of
        Inl e \<Rightarrow> Inl e
      | Inr n \<Rightarrow> (if n = fname then Inr f else first_named fname fs))"

record callback =
  call_from :: int
  call_name :: string
  call_data :: "string + jval"

text \<open>The action \<open>pick_qty\<close>: the quantity is chosen and the order is drafted.\<close>

definition pending_order ::
  "callback \<Rightarrow> jval \<Rightarrow> jdict \<Rightarrow> jval \<Rightarrow> int \<Rightarrow> rat \<Rightarrow> world \<Rightarrow> jdict" where
  "pending_order call rid rest fname qty price w =
     [(''restaurant_id'', rid),
      (''restaurant_name'', dget rest ''name''),
      (''items'', JList [JDict [(''name'', fname), (''qty'', JNum (of_int qty)), (''price'', JNum price)]]),
      (''total_price'', JNum price),
      (''user_id'', JStr (py_str_int (call_from call))),
      (''user_name'', JStr (call_name call)),
      (''phone'', jget (users w (call_from call)) [''phone''])]"

definition pick_qty_food ::
  "callback \<Rightarrow> jval \<Rightarrow> jdict \<Rightarrow> jval \<Rightarrow> int \<Rightarrow> jval \<Rightarrow> world \<Rightarrow> outcome" where
  "pick_qty_food call rid rest fname qty food w =
     (if \<not> truthy food then Done (w\<lparr>log := log w @ [Answered ''Food not found'']\<rparr>)
      else case food of
             JDict fd \<Rightarrow>
               (case py_float (case map_of fd ''price'' of None \<Rightarrow> JNum 0 | Some v \<Rightarrow> v) of
                  Inl e \<Rightarrow> Raised e w
                | Inr unit_price \<Rightarrow>
                    (let price = unit_price * of_int qty;
                         w1 = set_user_state (call_from call)
                                [(''awaiting_schedule'', JBool True),
                                 (''pending_order'', JDict (pending_order call rid rest fname qty price w))] w;
                         w2 = send_message (chat_of (call_from call))
                                (Message ''When should we schedule? Send ASAP or YYYY-MM-DD HH:MM'' []) w1
                     in Done (w2\<lparr>log := log w2 @ [Answered []]\<rparr>)))
           | _ \<Rightarrow> Raised AttributeError w)"

definition pick_qty_rest ::
  "callback \<Rightarrow> jval \<Rightarrow> jval \<Rightarrow> int \<Rightarrow> world \<Rightarrow> outcome" where
  "pick_qty_rest call rid fname qty w =
     (case rid of
        JStr r \<Rightarrow>
          (case jget (restaurants w) [r] of
             JDict rest \<Rightarrow>
               (case py_iter (case map_of rest ''foods'' of None \<Rightarrow> JList [] | Some v \<Rightarrow> v) of
                  Inl e \<Rightarrow> Raised e w
                | Inr foods \<Rightarrow>
                    (case first_named fname foods of
                       Inl e \<Rightarrow> Raised e w
                     | Inr food \<Rightarrow> pick_qty_food call rid rest fname qty food w))
           | _ \<Rightarrow> Raised AttributeError w)
      | _ \<Rightarrow> Other_branch)"

definition pick_qty :: "callback \<Rightarrow> jdict \<Rightarrow> world \<Rightarrow> outcome" where
  "pick_qty call data w =
     (case map_of data ''rid'' of
        None \<Rightarrow> Raised KeyError w
      | Some rid \<Rightarrow>
          (case map_of data ''food_name'' of
             None \<Rightarrow> Raised KeyError w
           | Some fname \<Rightarrow>
               (case map_of data ''qty'' of
                  None \<Rightarrow> Raised KeyError w
                | Some q \<Rightarrow>
                    (case py_int q of
                       Inl e \<Rightarrow> Raised e w
                     | Inr qty \<Rightarrow> pick_qty_rest call rid fname qty w))))"

text \<open>
  \<open>callback_handler\<close>: the two plain payloads first, then the payloads that parse as JSON,
  by their \<open>action\<close>. A call with more arguments than the function has parameters raises
  \<open>TypeError\<close> once the arguments have been evaluated.
\<close>

definition callback_handler :: "env \<Rightarrow> callback \<Rightarrow> world \<Rightarrow> outcome" where
  "callback_handler ev call w =
     (let user_id = call_from call
      in case call_data call of
           Inl raw \<Rightarrow>
             (if raw = ''add_rest_send_image'' then Other_branch
              else if raw = ''add_rest_skip_image''
              then (case get_user_state user_id w of
                      JDict state \<Rightarrow>
                        (case map_of state ''data'' of
                           None \<Rightarrow> Raised KeyError w
                         | Some data \<Rightarrow>
                             (case save_restaurant_and_finish ev user_id data w of
                                Done w' \<Rightarrow> Done (w'\<lparr>log := log w' @ [Answered []]\<rparr>)
                              | r \<Rightarrow> r))
                    | _ \<Rightarrow> Raised TypeError w)
              else Done (w\<lparr>log := log w @ [Answered ''Invalid callback data'']\<rparr>))
         | Inr (JDict data) \<Rightarrow>
             (let action = dget data ''action''
              in if action = JStr ''edit_page'' then Other_branch
                 else if action = JStr ''food_page''
                 then (case map_of data ''rid'' of
                         None \<Rightarrow> Raised KeyError w
                       | Some rid \<Rightarrow>
                           (case map_of data ''page'' of
                              None \<Rightarrow> Raised KeyError w
                            | Some page \<Rightarrow> Raised TypeError w))
                 else if action = JStr ''add_food_new'' then Other_branch
                 else if action = JStr ''add_food_existing''
                 then (case py_index (case map_of data ''page'' of None \<Rightarrow> JNum 0 | Some v \<Rightarrow> v) of
                         Inl e \<Rightarrow> Raised e w
                       | Inr page \<Rightarrow>
                           (case build_food_page page of
                              Inl e \<Rightarrow> Raised e w
                            | Inr kb \<Rightarrow>
                                (let w1 = send_message (chat_of user_id) (Keyboard ''Select food to add:'' kb) w
                                 in Done (w1\<lparr>log := log w1 @ [Answered []]\<rparr>))))
                 else if action = JStr ''pick_qty'' then pick_qty call data w
                 else Other_branch)
         | Inr _ \<Rightarrow> Raised AttributeError w)"

section \<open>Sample stores\<close>

definition empty_world :: world where
  "empty_world = \<lparr>users = (\<lambda>u. JNull), restaurants = JNull, orders = JNull, jobs = [], log = []\<rparr>"

definition keyed_world :: world where
  "keyed_world = empty_world\<lparr>restaurants :=
     JDict [(''r1'', JDict [(''name'', JStr ''Pizza Place''),
                            (''orders'', JDict [(''k0'', JStr ''A1''), (''k1'', JStr ''B2'')])])]\<rparr>"

definition served_world :: world where
  "served_world = empty_world\<lparr>orders :=
     JDict [(''ORD1'', JDict [(''items'', JList [JDict [(''name'', JStr ''Burger''), (''qty'', JNum 2), (''price'', JNum 10)]]),
                              (''total_price'', JNum 10), (''user_name'', JStr ''Abel''),
                              (''phone'', JStr ''0911''), (''status'', JStr ''scheduled'')]),
            (''ORD2'', JDict [(''total_price'', JNum 10), (''user_name'', JStr ''Abel''),
                              (''status'', JStr ''scheduled'')]),
            (''ORD3'', JDict [(''total_price'', JNum 4), (''user_name'', JStr ''Sara''),
                              (''phone'', JStr ''0922''), (''status'', JStr ''served'')])]\<rparr>"

definition demo_env :: env where
  "demo_env = \<lparr>now = \<lparr>wall = 2000, tzinfo = Some 0\<rparr>,
                new_order_id = ''0A1B2C3D4E5F'', new_rest_id = ''0a1b2c3d4e5f'', new_food_id = ''0a1b2c3d'',
                parse_date = (\<lambda>s. if s = ''2020-01-01T10:00:00'' then Some \<lparr>wall = 1000, tzinfo = None\<rparr>
                                 else if s = ''2020-01-01T11:00:00+00:00'' then Some \<lparr>wall = 4600, tzinfo = Some 0\<rparr>
                                 else None),
                isoformat = (\<lambda>dt. if wall dt = 2000 then ''2020-01-01T10:16:40+00:00'' else ''2020-01-01T10:00:00+00:00'')\<rparr>"


definition crowd_ids :: "string list" where
  "crowd_ids = [''r01'', ''r02'', ''r03'', ''r04'', ''r05'', ''r06'', ''r07'', ''r08'',
                ''r09'', ''r10'', ''r11'', ''r12'', ''r13'', ''r14'', ''r15'', ''r16'']"

definition crowd_rest :: "string \<Rightarrow> string \<times> jval" where
  "crowd_rest rid = (rid, JDict [(''name'', JStr ''Cafe''),
                                 (''location'', JDict [(''lat'', JNum 0), (''lon'', JNum 0)])])"

definition crowd_line :: "string \<Rightarrow> jval \<times> real \<times> string" where
  "crowd_line rid = (JStr ''Cafe'', 0, rid)"

definition crowded_world :: world where
  "crowded_world = empty_world\<lparr>restaurants := JDict (map crowd_rest crowd_ids)\<rparr>"

definition near_world :: world where
  "near_world = empty_world\<lparr>restaurants :=
     JDict [(''r1'', JDict [(''name'', JStr ''Far Cafe''),
                            (''location'', JDict [(''lat'', JNum 0), (''lon'', JNum 180)])]),
            (''r2'', JDict [(''name'', JStr ''No Place'')]),
            (''r3'', JDict [(''name'', JStr ''Here Cafe''),
                            (''location'', JDict [(''lat'', JNum 0), (''lon'', JNum 0)])])]\<rparr>"

definition burger_foods :: "jval list" where
  "burger_foods = [JDict [(''name'', JStr ''Burger''), (''people'', JNum 1)]]"

definition food_page_press :: callback where
  "food_page_press = \<lparr>call_from = 7, call_name = ''Abel'',
      call_data = Inr (JDict [(''action'', JStr ''add_food_existing'')])\<rparr>"

definition burger_world :: world where
  "burger_world = empty_world\<lparr>
     users := (\<lambda>u. if u = 7 then JDict [(''name'', JStr ''Abel''), (''phone'', JStr ''0911'')] else JNull),
     restaurants := JDict [(''r1'', JDict [(''name'', JStr ''Burger House''), (''manager_chat_id'', JNum 77),
                                          (''foods'', JList [JDict [(''name'', JStr ''Burger''), (''price'', JStr ''5.00'')]]),
                                          (''orders'', JList [JStr ''OLD1'']), (''orders_count'', JNum 3)])]\<rparr>"

definition pick_press :: callback where
  "pick_press = \<lparr>call_from = 7, call_name = ''Abel'',
      call_data = Inr (JDict [(''action'', JStr ''pick_qty''), (''rid'', JStr ''r1''),
                             (''food_name'', JStr ''Burger''), (''qty'', JNum 2)])\<rparr>"

definition burger_pending :: jdict where
  "burger_pending =
     [(''restaurant_id'', JStr ''r1''), (''restaurant_name'', JStr ''Burger House''),
      (''items'', JList [JDict [(''name'', JStr ''Burger''), (''qty'', JNum 2), (''price'', JNum 10)]]),
      (''total_price'', JNum 10), (''user_id'', JStr ''7''), (''user_name'', JStr ''Abel''),
      (''phone'', JStr ''0911'')]"

definition burger_state :: jdict where
  "burger_state = [(''awaiting_schedule'', JBool True), (''pending_order'', JDict burger_pending)]"

definition picked_world :: world where
  "picked_world = burger_world\<lparr>
     users := (users burger_world)
                (7 := JDict [(''name'', JStr ''Abel''), (''phone'', JStr ''0911''), (''state'', JDict burger_state)]),
     log := [StateWritten 7 (JDict burger_state),
             Sent (chat_of 7) (Message ''When should we schedule? Send ASAP or YYYY-MM-DD HH:MM'' []),
             Answered []]\<rparr>"

definition asap_message :: message where
  "asap_message = \<lparr>from_id = 7, from_name = ''Abel'', msg_text = Some ''ASAP''\<rparr>"





definition padded_asap_message :: message where
  "padded_asap_message = \<lparr>from_id = 7, from_name = ''Abel'',
                           msg_text = Some (''ASAP'' @ [char_of (160::nat)])\<rparr>"

definition pizza_docs :: jval where
  "pizza_docs = JDict [(''r1'', JDict [(''name'', JStr ''Pizza Place''), (''manager_chat_id'', JNum 77)])]"

definition manager_world :: world where
  "manager_world = empty_world\<lparr>
     users := (\<lambda>u. if u = 9 then JDict [(''phone'', JStr ''0933''),
                  (''state'', JDict [(''reg_rest_step'', JStr ''name''),
                                     (''new_rest'', JDict [(''manager_id'', JNum 9)])])] else JNull),
     restaurants := pizza_docs\<rparr>"

definition admin_world :: world where
  "admin_world = empty_world\<lparr>
     users := (\<lambda>u. if u = 9 then JDict [(''phone'', JStr ''0933''),
                  (''state'', JDict [(''add_rest'', JBool True), (''step'', JStr ''name'')])] else JNull),
     restaurants := pizza_docs\<rparr>"

definition admin_ready_world :: world where
  "admin_ready_world = empty_world\<lparr>
     users := (\<lambda>u. if u = 9 then JDict [(''phone'', JStr ''0933''),
                  (''state'', JDict [(''add_rest'', JBool True), (''step'', JStr ''manager''),
                                     (''data'', JDict [(''name'', JStr ''pizza place''),
                                                       (''phone'', JStr ''0944'')])])] else JNull),
     restaurants := pizza_docs\<rparr>"

definition dup_name_message :: message where
  "dup_name_message = \<lparr>from_id = 9, from_name = ''Sara'', msg_text = Some ''pizza place''\<rparr>"

definition skip_press :: callback where
  "skip_press = \<lparr>call_from = 9, call_name = ''Sara'', call_data = Inl ''add_rest_skip_image''\<rparr>"

definition fresh_name_message :: message where
  "fresh_name_message = \<lparr>from_id = 9, from_name = ''Sara'', msg_text = Some ''Sushi Bar''\<rparr>"

definition pricing_world :: world where
  "pricing_world = empty_world\<lparr>
     users := (\<lambda>u. if u = 9 then JDict [(''phone'', JStr ''0933''),
                  (''state'', JDict [(''awaiting_food_price'', JBool True), (''rid'', JStr ''r1''),
                                     (''food_data'', JDict [(''name'', JStr ''Fries'')])])] else JNull),
     restaurants := pizza_docs\<rparr>"

definition food_mode_world :: world where
  "food_mode_world = empty_world\<lparr>
     users := (\<lambda>u. if u = 9 then JDict [(''phone'', JStr ''0933''),
                  (''state'', JDict [(''add_food_mode'', JBool True), (''rid'', JStr ''r1''),
                                     (''step'', JStr ''price''),
                                     (''food'', JDict [(''name'', JStr ''Fries'')])])] else JNull),
     restaurants := pizza_docs\<rparr>"

definition zero_price_message :: message where
  "zero_price_message = \<lparr>from_id = 9, from_name = ''Sara'', msg_text = Some ''0''\<rparr>"

definition negative_price_message :: message where
  "negative_price_message = \<lparr>from_id = 9, from_name = ''Sara'', msg_text = Some ''-5''\<rparr>"

section \<open>Properties of the store\<close>

lemma dget_update_same: "dget (AList.update k v d) k = v"
  by (simp add: dget_def update_conv')

lemma dget_update_other: "k \<noteq> k' \<Longrightarrow> dget (AList.update k v d) k' = dget d k'"
  by (simp add: dget_def update_conv')

lemma jget_JNull: "jget JNull p = JNull"
  by (cases p) simp_all

lemma jget_jset_same: "jget (jset v p x) p = x"
proof (induction p arbitrary: v)
  case Nil
  show ?case by simp
next
  case (Cons k ks)
  show ?case
  proof (cases v)
    case (JDict d)
    then show ?thesis by (simp add: dget_update_same Cons.IH)
  qed (simp_all add: dget_def Cons.IH)
qed

lemma jget_jset_sibling:
  assumes "a \<noteq> b"
  shows "jget (jset v [k, a] x) [k, b] = jget v [k, b]"
proof (cases v)
  case (JDict d)
  have upd: "jget (jset v [k, a] x) [k, b] = jget (jset (dget d k) [a] x) [b]"
    using JDict by (simp add: dget_update_same)
  have "jget (jset u [a] x) [b] = jget u [b]" for u
    using assms by (cases u) (simp_all add: dget_def update_conv')
  with upd JDict show ?thesis by simp
qed (use assms in \<open>simp_all add: dget_def\<close>)

section \<open>No lost update on a restaurant's aggregates\<close>

lemma rest_orders_add:
  "rest_orders (add_order_to_restaurant rid oid w) rid =
     (case add_order_txn oid (rest_orders w rid) of Inl e \<Rightarrow> rest_orders w rid | Inr v \<Rightarrow> v)"
  unfolding rest_orders_def add_order_to_restaurant_def transaction_def
  by (simp add: jget_jset_same del: jget.simps jset.simps split: sum.splits)

lemma rest_orders_count_add:
  "rest_orders_count (add_order_to_restaurant rid oid w) rid = rest_orders_count w rid"
  unfolding rest_orders_count_def add_order_to_restaurant_def transaction_def
  by (simp add: jget_jset_sibling del: jget.simps jset.simps split: sum.splits)

lemma rest_orders_count_incr:
  "rest_orders_count (increment_rest_orders_count rid d w) rid =
     (case increment_txn d (rest_orders_count w rid) of Inl e \<Rightarrow> rest_orders_count w rid | Inr v \<Rightarrow> v)"
  unfolding rest_orders_count_def increment_rest_orders_count_def transaction_def
  by (simp add: jget_jset_same del: jget.simps jset.simps split: sum.splits)

lemma rest_orders_incr:
  "rest_orders (increment_rest_orders_count rid d w) rid = rest_orders w rid"
  unfolding rest_orders_def increment_rest_orders_count_def transaction_def
  by (simp add: jget_jset_sibling del: jget.simps jset.simps split: sum.splits)

lemma add_order_txn_list:
  assumes "is_orders_value v"
  shows "add_order_txn oid v =
     Inr (JList (if JStr oid \<in> set (orders_list v) then orders_list v else orders_list v @ [JStr oid]))"
  using assms by (cases v) (simp_all add: add_order_txn_def is_orders_value_def orders_list_def)

lemma increment_txn_counter:
  assumes "counter_value v = Some c"
  shows "increment_txn d v = Inr (JNum (of_int (c + d)))"
proof (cases v)
  case JNull
  with assms show ?thesis by (simp add: increment_txn_def counter_value_def py_int_def)
next
  case (JNum r)
  with assms have r: "r = of_int c"
    by (simp add: counter_value_def split: if_splits)
  show ?thesis unfolding JNum r
    by (simp add: increment_txn_def py_int_def)
qed (use assms in \<open>simp_all add: counter_value_def\<close>)

lemma counter_value_int: "counter_value (JNum (of_int n)) = Some n"
  by (simp add: counter_value_def)

lemma orders_list_JList: "orders_list (JList xs) = xs"
  by (simp add: orders_list_def)

lemma is_orders_value_JList: "is_orders_value (JList xs)"
  by (simp add: is_orders_value_def)

lemma commits_orders:
  assumes "is_orders_value (rest_orders w rid)"
  shows "\<exists>new. orders_list (rest_orders (commits rid ops w) rid) = orders_list (rest_orders w rid) @ new
            \<and> distinct new
            \<and> set new = JStr ` set (appended ops) - set (orders_list (rest_orders w rid))"
  using assms
proof (induction ops arbitrary: w)
  case Nil
  show ?case by simp
next
  case (Cons op ops)
  let ?L0 = "orders_list (rest_orders w rid)"
  show ?case
  proof (cases op)
    case (Incr d)
    have "rest_orders (commit rid op w) rid = rest_orders w rid"
      using Incr by (simp add: rest_orders_incr)
    with Cons.IH [of "commit rid op w"] Cons.prems Incr show ?thesis by simp
  next
    case (Append oid)
    let ?w1 = "commit rid op w"
    let ?L1 = "if JStr oid \<in> set ?L0 then ?L0 else ?L0 @ [JStr oid]"
    have w1: "rest_orders ?w1 rid = JList ?L1"
      using Append Cons.prems by (simp add: rest_orders_add add_order_txn_list)
    then have "is_orders_value (rest_orders ?w1 rid)"
      by (simp add: is_orders_value_JList)
    from Cons.IH [OF this] obtain new1 where
      fin: "orders_list (rest_orders (commits rid ops ?w1) rid) = ?L1 @ new1"
      and d1: "distinct new1"
      and s1: "set new1 = JStr ` set (appended ops) - set ?L1"
      unfolding w1 orders_list_JList by blast
    show ?thesis
    proof (cases "JStr oid \<in> set ?L0")
      case True
      with fin d1 s1 Append show ?thesis by auto
    next
      case False
      let ?new = "JStr oid # new1"
      have "orders_list (rest_orders (commits rid (op # ops) w) rid) = ?L0 @ ?new"
        using fin False by simp
      moreover have "distinct ?new" using d1 s1 False by auto
      moreover have "set ?new = JStr ` set (appended (op # ops)) - set ?L0"
        using s1 False Append by auto
      ultimately show ?thesis by blast
    qed
  qed
qed

lemma commits_counter:
  assumes "counter_value (rest_orders_count w rid) = Some c"
  shows "counter_value (rest_orders_count (commits rid ops w) rid) = Some (c + deltas ops)"
  using assms
proof (induction ops arbitrary: w c)
  case Nil
  then show ?case by simp
next
  case (Cons op ops)
  show ?case
  proof (cases op)
    case (Append oid)
    with Cons.IH [of "commit rid op w" c] Cons.prems show ?thesis
      by (simp add: rest_orders_count_add)
  next
    case (Incr d)
    have "counter_value (rest_orders_count (commit rid op w) rid) = Some (c + d)"
      using Incr Cons.prems
      by (simp add: rest_orders_count_incr increment_txn_counter counter_value_int del: of_int_add)
    from Cons.IH [OF this] Incr show ?thesis by (simp add: add.assoc)
  qed
qed

text \<open>
  Claim C1. Take any run of committed \<open>add_order_to_restaurant\<close> and
  \<open>increment_rest_orders_count\<close> transactions on one restaurant, starting from an \<open>orders\<close>
  value that is absent, a list or a keyed mapping, and from a counter that is absent or an
  integer \<open>c\<close> (absent counts as 0). Then the final \<open>orders\<close> value, read as a plain list, is
  the initial entries (a keyed mapping flattened to its values) followed by each appended
  order id that was not there yet, exactly once: it holds every appended id and nothing
  else was added. The final counter is \<open>c\<close> plus the sum of the deltas.
\<close>

theorem no_lost_updates:
  assumes "is_orders_value (rest_orders w rid)"
    and "counter_value (rest_orders_count w rid) = Some c"
  shows "set (orders_list (rest_orders (commits rid ops w) rid))
           = set (orders_list (rest_orders w rid)) \<union> JStr ` set (appended ops)
       \<and> (\<exists>new. orders_list (rest_orders (commits rid ops w) rid)
                    = orders_list (rest_orders w rid) @ new
                \<and> distinct new
                \<and> set new = JStr ` set (appended ops) - set (orders_list (rest_orders w rid)))
       \<and> counter_value (rest_orders_count (commits rid ops w) rid) = Some (c + deltas ops)"
proof -
  from commits_orders [OF assms(1), of ops] obtain new where
    fin: "orders_list (rest_orders (commits rid ops w) rid) = orders_list (rest_orders w rid) @ new"
    and dist: "distinct new"
    and new: "set new = JStr ` set (appended ops) - set (orders_list (rest_orders w rid))"
    by blast
  have "set (orders_list (rest_orders (commits rid ops w) rid))
          = set (orders_list (rest_orders w rid)) \<union> JStr ` set (appended ops)"
    unfolding fin using new by auto
  moreover note commits_counter [OF assms(2), of ops]
  ultimately show ?thesis using fin dist new by blast
qed

theorem no_lost_updates_witness:
  "is_orders_value (rest_orders keyed_world ''r1'')
   \<and> counter_value (rest_orders_count keyed_world ''r1'') = Some 0
   \<and> set (orders_list (rest_orders
        (commits ''r1'' [Append ''C3'', Incr 1, Append ''A1'', Incr 2, Append ''C3''] keyed_world) ''r1''))
        = {JStr ''A1'', JStr ''B2'', JStr ''C3''}
   \<and> counter_value (rest_orders_count
        (commits ''r1'' [Append ''C3'', Incr 1, Append ''A1'', Incr 2, Append ''C3''] keyed_world) ''r1'')
        = Some 3"
proof -
  have h1: "is_orders_value (rest_orders keyed_world ''r1'')"
    by (simp add: keyed_world_def empty_world_def rest_orders_def dget_def is_orders_value_def)
  have h2: "counter_value (rest_orders_count keyed_world ''r1'') = Some 0"
    by (simp add: keyed_world_def empty_world_def rest_orders_count_def dget_def counter_value_def)
  have l0: "orders_list (rest_orders keyed_world ''r1'') = [JStr ''A1'', JStr ''B2'']"
    by (simp add: keyed_world_def empty_world_def rest_orders_def dget_def orders_list_def)
  from no_lost_updates [OF h1 h2, of "[Append ''C3'', Incr 1, Append ''A1'', Incr 2, Append ''C3'']"]
  show ?thesis using h1 h2 unfolding l0 by auto
qed

section \<open>Dispatch of a notification\<close>


text \<open>
  Claim C2, as amended. \<open>send_restaurant_notification\<close> never changes a stored record, an
  order's status included. It sends nothing when the order is absent or empty, or when its
  status is \<open>served\<close>. Otherwise it sends exactly one message, to the chat it was given,
  provided the summary can be rendered, that is, the record has \<open>total_price\<close>, \<open>user_name\<close>
  and \<open>phone\<close> and every item has \<open>name\<close>, \<open>qty\<close> and \<open>price\<close>. When a field is missing the
  exception is caught and nothing is sent.
\<close>

theorem notification_dispatch:
  "users (send_restaurant_notification chat oid w) = users w
   \<and> restaurants (send_restaurant_notification chat oid w) = restaurants w
   \<and> orders (send_restaurant_notification chat oid w) = orders w
   \<and> jobs (send_restaurant_notification chat oid w) = jobs w
   \<and> (\<not> truthy (jget (orders w) [oid]) \<longrightarrow> log (send_restaurant_notification chat oid w) = log w)
   \<and> (\<forall>d. jget (orders w) [oid] = JDict d \<and> dget d ''status'' = JStr ''served''
          \<longrightarrow> log (send_restaurant_notification chat oid w) = log w)
   \<and> (\<forall>d c. jget (orders w) [oid] = JDict d \<and> d \<noteq> [] \<and> dget d ''status'' \<noteq> JStr ''served''
            \<and> render_order oid d = Inr c
          \<longrightarrow> log (send_restaurant_notification chat oid w) = log w @ [Sent chat c])
   \<and> (\<forall>d e. jget (orders w) [oid] = JDict d \<and> render_order oid d = Inl e
          \<longrightarrow> log (send_restaurant_notification chat oid w) = log w)"
  by (simp add: send_restaurant_notification_def notification_body_def send_message_def Let_def
      split: sum.splits jval.splits if_splits)

lemma render_order_fields:
  assumes "map_of d ''items'' = Some (JList [])"
    and "map_of d ''total_price'' = Some t"
    and "map_of d ''user_name'' = Some u"
    and "map_of d ''phone'' = Some p"
  shows "render_order oid d = Inr (NewOrder oid [] t u p)"
  using assms by (simp add: render_order_def py_iter_def py_item_def)

lemmas served_world_simps =
  served_world_def empty_world_def dget_def py_get_def py_item_def py_iter_def
  render_order_def order_line_def

theorem notification_dispatch_witness:
  "log (send_restaurant_notification (JNum 77) ''ORD1'' served_world)
     = [Sent (JNum 77) (NewOrder ''ORD1'' [(JStr ''Burger'', JNum 2, JNum 10)]
                          (JNum 10) (JStr ''Abel'') (JStr ''0911''))]
   \<and> log (send_restaurant_notification (JNum 77) ''ORD2'' served_world) = []
   \<and> log (send_restaurant_notification (JNum 77) ''ORD3'' served_world) = []
   \<and> log (send_restaurant_notification (JNum 77) ''ORD9'' served_world) = []"
proof -
  have a: "\<not> truthy (jget (orders served_world) [''ORD9''])"
    by (simp add: served_world_simps)
  obtain d3 where d3: "jget (orders served_world) [''ORD3''] = JDict d3"
    "dget d3 ''status'' = JStr ''served''"
    by (simp add: served_world_simps)
  obtain d1 where d1: "jget (orders served_world) [''ORD1''] = JDict d1" "d1 \<noteq> []"
    "dget d1 ''status'' \<noteq> JStr ''served''"
    "render_order ''ORD1'' d1 = Inr (NewOrder ''ORD1'' [(JStr ''Burger'', JNum 2, JNum 10)]
                          (JNum 10) (JStr ''Abel'') (JStr ''0911''))"
    by (simp add: served_world_simps)
  obtain d2 where d2: "jget (orders served_world) [''ORD2''] = JDict d2"
    "render_order ''ORD2'' d2 = Inl KeyError"
    by (simp add: served_world_simps)
  have l: "log served_world = []"
    by (simp add: served_world_def empty_world_def)
  from notification_dispatch [of "JNum 77" "''ORD9''" served_world] a l
  have "log (send_restaurant_notification (JNum 77) ''ORD9'' served_world) = []" by simp
  moreover from notification_dispatch [of "JNum 77" "''ORD3''" served_world] d3 l
  have "log (send_restaurant_notification (JNum 77) ''ORD3'' served_world) = []" by simp
  moreover from notification_dispatch [of "JNum 77" "''ORD1''" served_world] d1 l
  have "log (send_restaurant_notification (JNum 77) ''ORD1'' served_world)
     = [Sent (JNum 77) (NewOrder ''ORD1'' [(JStr ''Burger'', JNum 2, JNum 10)]
                          (JNum 10) (JStr ''Abel'') (JStr ''0911''))]" by simp
  moreover from notification_dispatch [of "JNum 77" "''ORD2''" served_world] d2 l
  have "log (send_restaurant_notification (JNum 77) ''ORD2'' served_world) = []" by simp
  ultimately show ?thesis by simp
qed

text \<open>
  The claim as stated fails on an order that is present and not served but has no \<open>phone\<close>
  (what the store returns for an order placed by a user without a phone number): the
  \<open>KeyError\<close> is caught and no message goes out.
\<close>

theorem notification_missing_phone_counterexample:
  "truthy (jget (orders served_world) [''ORD2''])
   \<and> py_get (jget (orders served_world) [''ORD2'']) ''status'' = Inr (JStr ''scheduled'')
   \<and> log (send_restaurant_notification (JNum 77) ''ORD2'' served_world) = log served_world"
  by (simp add: served_world_simps send_restaurant_notification_def notification_body_def)

section \<open>Restoring scheduled notifications at startup\<close>




lemma restore_try_job:
  assumes "restore_try ev oid od w = Inr w'"
  shows "\<exists>j. w' = w\<lparr>jobs := AList.update (job_id oid) j (jobs w)\<rparr> \<and> job_order j = oid
             \<and> stored_run_date ev od = Some (run_date j)"
  using assms
  by (auto simp: restore_try_def schedule_order_notification_def py_item_def stored_run_date_def
      split: sum.splits jval.splits option.splits)

lemma restore_step_job:
  "restore_step ev oid od w =
     (case restore_try ev oid od w of
        Inl e \<Rightarrow> w
      | Inr w' \<Rightarrow> w')"
  by (simp add: restore_step_def)

lemma restored_job_Some:
  assumes "restored_job ev w (oid, od) = Some (k, j)"
  shows "is_scheduled od \<and> k = job_id oid \<and> job_order j = oid
         \<and> stored_run_date ev od = Some (run_date j)
         \<and> restore_step ev oid od w = w\<lparr>jobs := AList.update k j (jobs w)\<rparr>"
proof -
  from assms have sch: "is_scheduled od"
    by (auto simp: restored_job_def split: if_splits)
  with assms obtain w' where w': "restore_try ev oid od w = Inr w'"
    by (auto simp: restored_job_def split: sum.splits)
  from restore_try_job [OF w'] obtain j' where
    j': "w' = w\<lparr>jobs := AList.update (job_id oid) j' (jobs w)\<rparr>" "job_order j' = oid"
    "stored_run_date ev od = Some (run_date j')" by blast
  then have "map_of (jobs w') (job_id oid) = Some j'"
    by (simp add: update_conv')
  with assms sch w' have "k = job_id oid" "j = j'"
    by (auto simp: restored_job_def)
  with sch j' w' show ?thesis by (simp add: restore_step_def)
qed


lemma restored_job_unparseable:
  assumes "stored_run_date ev od = None"
  shows "restored_job ev w (oid, od) = None"
proof (cases "restored_job ev w (oid, od)")
  case None
  then show ?thesis .
next
  case (Some kj)
  obtain k j where "kj = (k, j)" by (cases kj)
  with restored_job_Some [of ev w oid od k j] Some assms show ?thesis by simp
qed
















section \<open>The conversation at the schedule step\<close>

lemmas text_simps =
  py_lower_def lower_char_def char_of_def bit_Suc_0_iff py_strip_def is_space_def
  num_strip_def is_num_space_def is_digit_char_def
  py_float_str_def is_digit_def digit_val_def py_isdigit_def parse_price_def py_str_int_def
  text_of_def

lemma add_food_mode_passes:
  assumes "map_of state ''rid'' \<noteq> None" and "map_of state ''step'' \<noteq> None"
    and "dget state ''step'' \<noteq> JStr ''name''" and "dget state ''step'' \<noteq> JStr ''price''"
  shows "add_food_mode_branch ev m text state w = None"
  using assms by (auto simp: add_food_mode_branch_def dget_def Let_def)

lemma editing_rest_passes:
  assumes "map_of state ''rid'' \<noteq> None" and "dget state ''edit_step'' \<noteq> JStr ''name''"
  shows "editing_rest_branch state w = None"
  using assms by (auto simp: editing_rest_branch_def)

lemma reg_rest_passes:
  assumes "map_of state ''new_rest'' \<noteq> None"
    and "dget state ''reg_rest_step'' \<noteq> JStr ''name''"
    and "dget state ''reg_rest_step'' \<noteq> JStr ''custom_food''"
    and "dget state ''reg_rest_step'' \<noteq> JStr ''description''"
  shows "reg_rest_branch ev m text state w = None"
  using assms by (auto simp: reg_rest_branch_def Let_def)

lemma add_rest_passes:
  assumes "dget state ''step'' \<noteq> JStr ''name''" and "dget state ''step'' \<noteq> JStr ''phone''"
    and "dget state ''step'' \<noteq> JStr ''manager''"
  shows "add_rest_branch ev m text state w = None"
  using assms by (simp add: add_rest_branch_def Let_def)

lemma add_food_passes:
  assumes "map_of state ''data'' \<noteq> None" and "map_of state ''step'' \<noteq> None"
    and "dget state ''step'' \<noteq> JStr ''name''" and "dget state ''step'' \<noteq> JStr ''ingredients''"
    and "dget state ''step'' \<noteq> JStr ''people''"
  shows "add_food_branch state w = None"
  using assms by (auto simp: add_food_branch_def dget_def)

lemma chain_at_schedule_step:
  assumes "at_schedule_step state"
  shows "text_chain ev m text state w = schedule_branch ev m text state w"
proof -
  from assms have a: "(if truthy (dget state ''add_food_mode'')
                       then add_food_mode_branch ev m text state w else None) = None"
    by (simp add: at_schedule_step_def add_food_mode_passes)
  from assms have b: "(if truthy (dget state ''editing_rest'')
                       then editing_rest_branch state w else None) = None"
    by (simp add: at_schedule_step_def editing_rest_passes)
  from assms have c: "(if truthy (dget state ''reg_rest_step'')
                       then reg_rest_branch ev m text state w else None) = None"
    by (simp add: at_schedule_step_def reg_rest_passes)
  from assms have d: "(if truthy (dget state ''add_rest'') \<and> truthy (dget state ''step'')
                       then add_rest_branch ev m text state w else None) = None"
    by (simp add: at_schedule_step_def add_rest_passes)
  from assms have e: "(if truthy (dget state ''add_food'')
                       then add_food_branch state w else None) = None"
    by (simp add: at_schedule_step_def add_food_passes)
  from assms have f: "\<not> truthy (dget state ''awaiting_search'')"
    "\<not> truthy (dget state ''awaiting_edit_search'')" "\<not> truthy (dget state ''awaiting_food_data'')"
    "\<not> truthy (dget state ''awaiting_food_price'')"
    "truthy (dget state ''awaiting_schedule'')" "truthy (dget state ''pending_order'')"
    by (simp_all add: at_schedule_step_def)
  show ?thesis
    unfolding text_chain_def chain_tail_def a b c d e
    using f by (simp add: add_flow_branch_def)
qed

lemma jget_append: "jget t (p @ q) = jget (jget t p) q"
proof (induction p arbitrary: t)
  case Nil
  show ?case by simp
next
  case (Cons k ks)
  show ?case by (cases t) (simp_all add: Cons.IH jget_JNull)
qed

lemma jget_two: "jget t [k, x] = jget (jget t [k]) [x]"
  using jget_append [of t "[k]" "[x]"] by simp

lemma jget_jset_prefix: "jget (jset t [k, a] v) [k] = jset (jget t [k]) [a] v"
proof (cases t)
  case (JDict e)
  then show ?thesis by (simp add: dget_update_same)
qed (simp_all add: dget_def)

lemma jset_one_dict: "\<exists>d. jset u [a] v = JDict d \<and> d \<noteq> []"
proof (cases u)
  case (JDict e)
  then show ?thesis by (cases e) auto
qed simp_all

lemma jset_two_dict: "\<exists>d. jget (jset t [k, a] v) [k] = JDict d \<and> d \<noteq> []"
  unfolding jget_jset_prefix by (rule jset_one_dict)

lemma rest_chat_id_dict:
  assumes "jget t [k] = JDict d" and "d \<noteq> []"
  shows "rest_chat_id (jget t [k])
           = Inr (if truthy (jget t [k, ''chat_id'']) then jget t [k, ''chat_id'']
                  else jget t [k, ''manager_chat_id''])"
proof -
  have "jget t [k, x] = dget d x" for x
    unfolding jget_two [of t k x] assms(1) by simp
  with assms show ?thesis
    by (simp add: rest_chat_id_def py_get_def del: jget.simps)
qed

lemma add_order_frame:
  "users (add_order_to_restaurant rid oid w) = users w
   \<and> orders (add_order_to_restaurant rid oid w) = orders w
   \<and> jobs (add_order_to_restaurant rid oid w) = jobs w
   \<and> log (add_order_to_restaurant rid oid w) = log w"
  by (simp add: add_order_to_restaurant_def split: sum.splits)

lemma increment_frame:
  "users (increment_rest_orders_count rid n w) = users w
   \<and> orders (increment_rest_orders_count rid n w) = orders w
   \<and> jobs (increment_rest_orders_count rid n w) = jobs w
   \<and> log (increment_rest_orders_count rid n w) = log w"
  by (simp add: increment_rest_orders_count_def split: sum.splits)

lemma add_order_other_field:
  assumes "x \<noteq> ''orders''"
  shows "jget (restaurants (add_order_to_restaurant rid oid w)) [rid, x] = jget (restaurants w) [rid, x]"
  using assms unfolding add_order_to_restaurant_def transaction_def
  by (simp add: jget_jset_sibling del: jget.simps jset.simps split: sum.splits)

lemma increment_other_field:
  assumes "x \<noteq> ''orders_count''"
  shows "jget (restaurants (increment_rest_orders_count rid n w)) [rid, x] = jget (restaurants w) [rid, x]"
  using assms unfolding increment_rest_orders_count_def transaction_def
  by (simp add: jget_jset_sibling del: jget.simps jset.simps split: sum.splits)

lemma increment_makes_dict:
  assumes "counter_value (rest_orders_count w rid) = Some c"
  shows "\<exists>d. jget (restaurants (increment_rest_orders_count rid n w)) [rid] = JDict d \<and> d \<noteq> []"
  using increment_txn_counter [OF assms, of n] jset_two_dict
  unfolding increment_rest_orders_count_def transaction_def rest_orders_count_def
  by (simp del: jget.simps jset.simps)

lemma write_state_get:
  "get_user_state uid (write_state uid (JDict []) w) = JDict []"
  by (simp add: get_user_state_def write_state_def jget_jset_same del: jget.simps jset.simps)

lemma set_user_state_empty: "set_user_state uid [] w = write_state uid (JDict []) w"
  by (simp add: set_user_state_def ref_update_def)

lemma write_state_frame:
  "restaurants (write_state uid s w) = restaurants w \<and> orders (write_state uid s w) = orders w
   \<and> jobs (write_state uid s w) = jobs w"
  by (simp add: write_state_def)

lemma pick_qty_scenario: "callback_handler demo_env pick_press burger_world = Done picked_world"
  by (simp add: callback_handler_def pick_press_def pick_qty_def pick_qty_rest_def pick_qty_food_def
      pending_order_def burger_world_def empty_world_def picked_world_def burger_state_def
      burger_pending_def dget_def py_int_def py_iter_def py_item_def py_float_def text_simps
      set_user_state_def ref_update_def write_state_def send_message_def Let_def)

lemma picked_state: "get_user_state 7 picked_world = JDict burger_state"
  by (simp add: get_user_state_def picked_world_def burger_world_def empty_world_def dget_def
      burger_state_def)

lemma burger_state_step: "at_schedule_step burger_state"
  by (simp add: at_schedule_step_def burger_state_def dget_def burger_pending_def)




lemma padded_asap_text: "py_lower (text_of padded_asap_message) = ''asap''"
  by (simp add: padded_asap_message_def text_simps)

lemmas conv_simps =
  general_text_handler_def text_chain_def chain_tail_def editing_rest_branch_def
  add_flow_branch_def add_food_branch_def get_user_state_def dget_def
  set_user_state_def ref_update_def write_state_def clear_user_state_def send_message_def
  py_setitem_def py_item_def py_get_def

section \<open>Names of restaurants\<close>

text \<open>
  Claim C4 at its failing input. A restaurant named \<open>Pizza Place\<close> exists and the text is
  \<open>pizza place\<close>, the same name but for the case of its letters. At the step \<open>name\<close> of a
  manager's registration the handler answers that the name exists and leaves the draft as it
  is. At the step \<open>name\<close> of an admin's creation the handler takes the name and asks for the
  phone number, and \<open>save_restaurant_and_finish\<close> then writes the draft as a second
  restaurant of that name: neither looks at the names that exist.
\<close>

theorem admin_flow_duplicate_name:
  "name_taken ''pizza place'' [JDict [(''name'', JStr ''Pizza Place''), (''manager_chat_id'', JNum 77)]] = Inr True
   \<and> general_text_handler demo_env dup_name_message manager_world
       = Done (send_message (chat_of 9)
                 (Message ''A restaurant with this name already exists. Send a different name.'' [])
                 manager_world)
   \<and> general_text_handler demo_env dup_name_message admin_world
       = Done (send_message (chat_of 9) (Message ''Send restaurant phone number:'' [])
                 (set_user_state 9 [(''add_rest'', JBool True), (''step'', JStr ''phone''),
                                    (''data'', JDict [(''name'', JStr ''pizza place'')])] admin_world))
   \<and> callback_handler demo_env skip_press admin_ready_world
       = Done ((send_message (chat_of 9) (Message ''Restaurant {name} added successfully!'' [JStr ''pizza place''])
                 (clear_user_state 9 (admin_ready_world\<lparr>restaurants :=
                    JDict [(''r1'', JDict [(''name'', JStr ''Pizza Place''), (''manager_chat_id'', JNum 77)]),
                           (''0a1b2c3d4e5f'', JDict [(''name'', JStr ''pizza place''), (''phone'', JStr ''0944''),
                               (''id'', JStr ''0a1b2c3d4e5f''), (''foods'', JList []),
                               (''created_at'', RTDB_TIMESTAMP)])]\<rparr>)))
               \<lparr>log := [StateWritten 9 (JDict []),
                         Sent (chat_of 9) (Message ''Restaurant {name} added successfully!'' [JStr ''pizza place'']),
                         Answered []]\<rparr>)"
proof -
  have a: "name_taken ''pizza place'' [JDict [(''name'', JStr ''Pizza Place''), (''manager_chat_id'', JNum 77)]] = Inr True"
    by (simp add: text_simps)
  have b: "general_text_handler demo_env dup_name_message manager_world
       = Done (send_message (chat_of 9)
                 (Message ''A restaurant with this name already exists. Send a different name.'' [])
                 manager_world)"
    by (simp add: conv_simps reg_rest_branch_def manager_world_def empty_world_def pizza_docs_def
        dup_name_message_def text_simps Let_def)
  have c: "general_text_handler demo_env dup_name_message admin_world
       = Done (send_message (chat_of 9) (Message ''Send restaurant phone number:'' [])
                 (set_user_state 9 [(''add_rest'', JBool True), (''step'', JStr ''phone''),
                                    (''data'', JDict [(''name'', JStr ''pizza place'')])] admin_world))"
    by (simp add: conv_simps add_rest_branch_def admin_world_def empty_world_def pizza_docs_def
        dup_name_message_def text_simps Let_def)
  have d: "callback_handler demo_env skip_press admin_ready_world
       = Done ((send_message (chat_of 9) (Message ''Restaurant {name} added successfully!'' [JStr ''pizza place''])
                 (clear_user_state 9 (admin_ready_world\<lparr>restaurants :=
                    JDict [(''r1'', JDict [(''name'', JStr ''Pizza Place''), (''manager_chat_id'', JNum 77)]),
                           (''0a1b2c3d4e5f'', JDict [(''name'', JStr ''pizza place''), (''phone'', JStr ''0944''),
                               (''id'', JStr ''0a1b2c3d4e5f''), (''foods'', JList []),
                               (''created_at'', RTDB_TIMESTAMP)])]\<rparr>)))
               \<lparr>log := [StateWritten 9 (JDict []),
                         Sent (chat_of 9) (Message ''Restaurant {name} added successfully!'' [JStr ''pizza place'']),
                         Answered []]\<rparr>)"
    by (simp add: callback_handler_def save_restaurant_and_finish_def conv_simps admin_ready_world_def
        empty_world_def pizza_docs_def skip_press_def demo_env_def Let_def)
  from a b c d show ?thesis by simp
qed

section \<open>The order of prompt and state\<close>

lemma set_user_state_log:
  "\<exists>s. log (set_user_state uid d w) = log w @ [StateWritten uid s]"
  by (simp add: set_user_state_def write_state_def split: sum.splits)

text \<open>
  Claim C5 at its failing inputs. \<open>cmd_add\<close> and \<open>handle_start\<close> send their prompt first and
  write the conversation state after it, for every message and every store; the step \<open>name\<close>
  of a manager's registration, like the other steps of \<open>general_text_handler\<close>, writes the
  state first and sends the prompt after it.
\<close>

theorem prompt_sent_before_state_written:
  "(\<exists>w' c s. cmd_add m w = Done w'
       \<and> log w' = log w @ [Sent (chat_of (from_id m)) c, StateWritten (from_id m) s])
   \<and> (case handle_start m w of
         Done w' \<Rightarrow> (\<exists>c s. log w' = log w @ [Sent (chat_of (from_id m)) c, StateWritten (from_id m) s])
       | Raised e w' \<Rightarrow> w' = w
       | Other_branch \<Rightarrow> False)
   \<and> (case general_text_handler demo_env fresh_name_message manager_world of
         Done w' \<Rightarrow>
           log w' = [StateWritten 9 (JDict [(''reg_rest_step'', JStr ''foods''),
                                            (''new_rest'', JDict [(''manager_id'', JNum 9),
                                                                  (''name'', JStr ''Sushi Bar'')])]),
                     Sent (chat_of 9) (Message ''Now choose foods:'' [])]
       | Raised e w' \<Rightarrow> False
       | Other_branch \<Rightarrow> False)"
proof -
  have a: "\<exists>w' c s. cmd_add m w = Done w'
       \<and> log w' = log w @ [Sent (chat_of (from_id m)) c, StateWritten (from_id m) s]"
    using set_user_state_log [of "from_id m" "[(''add_flow'', JBool True)]"
        "send_message (chat_of (from_id m)) (Message ''What do you want to add?'' []) w"]
    by (auto simp: cmd_add_def send_message_def)
  have b: "case handle_start m w of
         Done w' \<Rightarrow> (\<exists>c s. log w' = log w @ [Sent (chat_of (from_id m)) c, StateWritten (from_id m) s])
       | Raised e w' \<Rightarrow> w' = w
       | Other_branch \<Rightarrow> False"
    by (simp add: handle_start_def Let_def set_user_state_def write_state_def send_message_def
        split: sum.splits)
  have c: "case general_text_handler demo_env fresh_name_message manager_world of
         Done w' \<Rightarrow>
           log w' = [StateWritten 9 (JDict [(''reg_rest_step'', JStr ''foods''),
                                            (''new_rest'', JDict [(''manager_id'', JNum 9),
                                                                  (''name'', JStr ''Sushi Bar'')])]),
                     Sent (chat_of 9) (Message ''Now choose foods:'' [])]
       | Raised e w' \<Rightarrow> False
       | Other_branch \<Rightarrow> False"
    by (simp add: conv_simps reg_rest_branch_def manager_world_def empty_world_def pizza_docs_def
        fresh_name_message_def text_simps Let_def)
  from a b c show ?thesis by blast
qed

section \<open>The price of a food\<close>

lemma add_food_mode_rejects_bad_price:
  assumes "map_of state ''rid'' = Some rid"
    and "map_of state ''step'' = Some (JStr ''price'')"
    and "msg_text m = Some raw"
    and "parse_price raw = Inr None \<or> (\<exists>p. parse_price raw = Inr (Some p) \<and> p \<le> 0)"
  shows "add_food_mode_branch ev m text state w
           = Some (Done (send_message (chat_of (from_id m))
                           (Message ''Invalid price. Send a number like 5 or 5.50'' []) w))"
  using assms by (auto simp: add_food_mode_branch_def Let_def)

text \<open>
  Claim C6 at its failing input. At the price step of \<open>add_food_mode\<close> the texts \<open>0\<close> and
  \<open>-5\<close> are refused: the prompt is repeated and nothing is written. At the price step
  \<open>awaiting_food_price\<close> the same texts are taken: the food is written into the restaurant
  with price 0, or -5, and the conversation state is cleared. That branch only catches what
  \<open>float\<close> cannot read and never compares the price with 0.
\<close>

theorem copied_food_price_not_checked:
  "general_text_handler demo_env zero_price_message food_mode_world
     = Done (send_message (chat_of 9) (Message ''Invalid price. Send a number like 5 or 5.50'' [])
               food_mode_world)
   \<and> general_text_handler demo_env negative_price_message food_mode_world
     = Done (send_message (chat_of 9) (Message ''Invalid price. Send a number like 5 or 5.50'' [])
               food_mode_world)
   \<and> general_text_handler demo_env zero_price_message pricing_world
     = Done (send_message (chat_of 9) (Message ''{name} added to restaurant.'' [JStr ''Fries''])
               (clear_user_state 9 (pricing_world\<lparr>restaurants :=
                  JDict [(''r1'', JDict [(''name'', JStr ''Pizza Place''), (''manager_chat_id'', JNum 77),
                                         (''foods'', JList [JDict [(''name'', JStr ''Fries''),
                                                                    (''price'', JNum 0)]])])]\<rparr>)))
   \<and> general_text_handler demo_env negative_price_message pricing_world
     = Done (send_message (chat_of 9) (Message ''{name} added to restaurant.'' [JStr ''Fries''])
               (clear_user_state 9 (pricing_world\<lparr>restaurants :=
                  JDict [(''r1'', JDict [(''name'', JStr ''Pizza Place''), (''manager_chat_id'', JNum 77),
                                         (''foods'', JList [JDict [(''name'', JStr ''Fries''),
                                                                    (''price'', JNum (- 5))]])])]\<rparr>)))"
proof -
  have a: "general_text_handler demo_env zero_price_message food_mode_world
     = Done (send_message (chat_of 9) (Message ''Invalid price. Send a number like 5 or 5.50'' [])
               food_mode_world)"
    by (simp add: conv_simps add_food_mode_branch_def food_mode_world_def empty_world_def
        pizza_docs_def zero_price_message_def text_simps Let_def)
  have b: "general_text_handler demo_env negative_price_message food_mode_world
     = Done (send_message (chat_of 9) (Message ''Invalid price. Send a number like 5 or 5.50'' [])
               food_mode_world)"
    by (simp add: conv_simps add_food_mode_branch_def food_mode_world_def empty_world_def
        pizza_docs_def negative_price_message_def text_simps Let_def)
  have c: "general_text_handler demo_env zero_price_message pricing_world
     = Done (send_message (chat_of 9) (Message ''{name} added to restaurant.'' [JStr ''Fries''])
               (clear_user_state 9 (pricing_world\<lparr>restaurants :=
                  JDict [(''r1'', JDict [(''name'', JStr ''Pizza Place''), (''manager_chat_id'', JNum 77),
                                         (''foods'', JList [JDict [(''name'', JStr ''Fries''),
                                                                    (''price'', JNum 0)]])])]\<rparr>)))"
    by (simp add: conv_simps awaiting_food_price_branch_def transaction_def food_txn_def py_iter_def
        pricing_world_def empty_world_def pizza_docs_def zero_price_message_def text_simps Let_def)
  have d: "general_text_handler demo_env negative_price_message pricing_world
     = Done (send_message (chat_of 9) (Message ''{name} added to restaurant.'' [JStr ''Fries''])
               (clear_user_state 9 (pricing_world\<lparr>restaurants :=
                  JDict [(''r1'', JDict [(''name'', JStr ''Pizza Place''), (''manager_chat_id'', JNum 77),
                                         (''foods'', JList [JDict [(''name'', JStr ''Fries''),
                                                                    (''price'', JNum (- 5))]])])]\<rparr>)))"
    by (simp add: conv_simps awaiting_food_price_branch_def transaction_def food_txn_def py_iter_def
        pricing_world_def empty_world_def pizza_docs_def negative_price_message_def text_simps Let_def)
  from a b c d show ?thesis by simp
qed

section \<open>An unreadable time at the schedule step\<close>




section \<open>Placing an order as soon as possible\<close>

text \<open>
  Claim C8. A user at the schedule step, with a pending order for restaurant \<open>rid\<close>, sends
  \<open>ASAP\<close> (or \<open>now\<close>). The handler returns, and then: the stored order has the total price
  and the items of the pending order, status \<open>scheduled\<close> and \<open>scheduled_for\<close> the current
  instant in UTC; the restaurant's \<open>orders_count\<close> is one more than before; the order id is in
  the restaurant's \<open>orders\<close> list, appended if it was not there; the user's conversation
  state is empty; and a notification job for the order is registered at that instant. In the
  scenario of the claim, checked after the theorem, the pending order comes from \<open>pick_qty\<close>
  with quantity 2 of a food priced \<open>5.00\<close>, and the total price is 10.
\<close>

theorem asap_places_order:
  assumes st: "get_user_state (from_id m) w = JDict state"
    and step: "at_schedule_step state"
    and pend: "dget state ''pending_order'' = JDict p"
    and prid: "map_of p ''restaurant_id'' = Some (JStr rid)"
    and asap: "py_lower (text_of m) = ''asap'' \<or> py_lower (text_of m) = ''now''"
    and ordv: "is_orders_value (rest_orders w rid)"
    and cnt: "counter_value (rest_orders_count w rid) = Some c"
  shows "\<exists>w' order.
           general_text_handler ev m w = Done w'
         \<and> jget (orders w') [new_order_id ev] = JDict order
         \<and> map_of order ''total_price'' = map_of p ''total_price''
         \<and> map_of order ''items'' = map_of p ''items''
         \<and> map_of order ''status'' = Some (JStr ''scheduled'')
         \<and> map_of order ''scheduled_for'' = Some (JStr (isoformat ev ((now ev)\<lparr>tzinfo := Some 0\<rparr>)))
         \<and> map_of order ''order_id'' = Some (JStr (new_order_id ev))
         \<and> counter_value (rest_orders_count w' rid) = Some (c + 1)
         \<and> rest_orders w' rid
             = JList (if JStr (new_order_id ev) \<in> set (orders_list (rest_orders w rid))
                      then orders_list (rest_orders w rid)
                      else orders_list (rest_orders w rid) @ [JStr (new_order_id ev)])
         \<and> get_user_state (from_id m) w' = JDict []
         \<and> map_of (jobs w') (job_id (new_order_id ev))
             = Some \<lparr>run_date = (now ev)\<lparr>tzinfo := Some 0\<rparr>, target = notify_target w rid,
                     job_order = new_order_id ev\<rparr>"
proof -
  define oid where "oid = new_order_id ev"
  define run_at where "run_at = (now ev)\<lparr>tzinfo := Some 0\<rparr>"
  define order where "order = AList.update ''created_at'' RTDB_TIMESTAMP
                                (AList.update ''status'' (JStr ''scheduled'')
                                   (AList.update ''scheduled_for'' (JStr (isoformat ev run_at))
                                      (AList.update ''order_id'' (JStr oid) p)))"
  define w1 where "w1 = w\<lparr>orders := jset (orders w) [oid] (JDict order)\<rparr>"
  define w2 where "w2 = add_order_to_restaurant rid oid w1"
  define w3 where "w3 = increment_rest_orders_count rid 1 w2"
  define chat where "chat = notify_target w rid"
  define w' where "w' = set_user_state (from_id m) []
                          (send_message (chat_of (from_id m))
                             (Message ''Order placed! ID: {order_id} Scheduled for {run_at}'' [JStr oid])
                             (schedule_order_notification oid run_at chat w3))"
  have o_rid: "map_of order ''restaurant_id'' = Some (JStr rid)"
    by (simp add: order_def update_conv' prid)
  have r1: "restaurants w1 = restaurants w" by (simp add: w1_def)
  have c1: "rest_orders_count w1 rid = rest_orders_count w rid"
    by (simp only: rest_orders_count_def r1)
  have c2: "counter_value (rest_orders_count w2 rid) = Some c"
    using cnt by (simp only: w2_def rest_orders_count_add c1)
  from increment_makes_dict [OF c2, of 1] obtain d where
    d: "jget (restaurants w3) [rid] = JDict d" "d \<noteq> []"
    unfolding w3_def by blast
  have field: "jget (restaurants w3) [rid, x] = jget (restaurants w) [rid, x]"
    if "x \<noteq> ''orders''" "x \<noteq> ''orders_count''" for x
    using that by (simp add: w3_def w2_def increment_other_field add_order_other_field r1
        del: jget.simps)
  have chat3: "rest_chat_id (get_restaurant w3 (JStr rid)) = Inr chat"
    unfolding get_restaurant_def jval.case rest_chat_id_dict [OF d] chat_def notify_target_def
    by (simp add: field Let_def del: jget.simps)
  have run_some: "(if py_lower (text_of m) = ''asap'' \<or> py_lower (text_of m) = ''now''
                   then Some ((now ev)\<lparr>tzinfo := Some 0\<rparr>)
                   else map_option as_utc (parse_date ev (text_of m))) = Some run_at"
    using asap by (simp add: run_at_def)
  have branch: "schedule_branch ev m (text_of m) state w = Done w'"
    unfolding schedule_branch_def Let_def run_some pend
    using o_rid chat3
    by (simp add: order_def [symmetric] oid_def [symmetric] w1_def [symmetric] w2_def [symmetric]
        w3_def [symmetric] w'_def del: jget.simps jset.simps)
  have run: "general_text_handler ev m w = Done w'"
    by (simp add: general_text_handler_def st chain_at_schedule_step [OF step] branch)
  have rest': "restaurants w' = restaurants w3"
    by (simp add: w'_def set_user_state_empty write_state_frame send_message_def
        schedule_order_notification_def)
  have ord': "orders w' = jset (orders w) [oid] (JDict order)"
    by (simp add: w'_def set_user_state_empty write_state_frame send_message_def
        schedule_order_notification_def w3_def w2_def increment_frame add_order_frame w1_def)
  have jobs': "jobs w' = AList.update (job_id oid)
                  \<lparr>run_date = as_utc run_at, target = chat, job_order = oid\<rparr> (jobs w)"
    by (simp add: w'_def set_user_state_empty write_state_frame send_message_def
        schedule_order_notification_def w3_def w2_def increment_frame add_order_frame w1_def)
  have a: "jget (orders w') [oid] = JDict order"
    unfolding ord' by (rule jget_jset_same)
  have b: "map_of order ''total_price'' = map_of p ''total_price''"
    "map_of order ''items'' = map_of p ''items''"
    "map_of order ''status'' = Some (JStr ''scheduled'')"
    "map_of order ''scheduled_for'' = Some (JStr (isoformat ev run_at))"
    "map_of order ''order_id'' = Some (JStr oid)"
    by (simp_all add: order_def update_conv')
  have cfin: "counter_value (rest_orders_count w' rid) = Some (c + 1)"
    unfolding rest_orders_count_def rest'
    using c2 by (simp add: w3_def rest_orders_count_def [symmetric] rest_orders_count_incr
        increment_txn_counter counter_value_int del: jget.simps of_int_add)
  have o1: "rest_orders w1 rid = rest_orders w rid"
    by (simp only: rest_orders_def r1)
  have lfin: "rest_orders w' rid
             = JList (if JStr oid \<in> set (orders_list (rest_orders w rid))
                      then orders_list (rest_orders w rid)
                      else orders_list (rest_orders w rid) @ [JStr oid])"
    unfolding rest_orders_def rest'
    using ordv by (simp add: w3_def w2_def rest_orders_def [symmetric] rest_orders_incr
        rest_orders_add o1 add_order_txn_list del: jget.simps)
  have sfin: "get_user_state (from_id m) w' = JDict []"
    by (simp add: w'_def set_user_state_empty write_state_get)
  have jfin: "map_of (jobs w') (job_id oid)
             = Some \<lparr>run_date = run_at, target = chat, job_order = oid\<rparr>"
    unfolding jobs' by (simp add: update_conv' as_utc_def run_at_def)
  from run a b cfin lfin sfin jfin show ?thesis
    unfolding oid_def run_at_def chat_def by blast
qed

theorem asap_places_order_witness:
  "callback_handler demo_env pick_press burger_world = Done picked_world
   \<and> (\<exists>w' order.
         general_text_handler demo_env asap_message picked_world = Done w'
       \<and> jget (orders w') [''0A1B2C3D4E5F''] = JDict order
       \<and> map_of order ''total_price'' = Some (JNum 10)
       \<and> map_of order ''status'' = Some (JStr ''scheduled'')
       \<and> map_of order ''scheduled_for'' = Some (JStr ''2020-01-01T10:16:40+00:00'')
       \<and> counter_value (rest_orders_count w' ''r1'') = Some 4
       \<and> rest_orders w' ''r1'' = JList [JStr ''OLD1'', JStr ''0A1B2C3D4E5F'']
       \<and> get_user_state 7 w' = JDict []
       \<and> map_of (jobs w') (job_id ''0A1B2C3D4E5F'')
           = Some \<lparr>run_date = \<lparr>wall = 2000, tzinfo = Some 0\<rparr>, target = JNum 77,
                   job_order = ''0A1B2C3D4E5F''\<rparr>)"
proof -
  have h1: "get_user_state (from_id asap_message) picked_world = JDict burger_state"
    by (simp add: asap_message_def picked_state)
  have h3: "dget burger_state ''pending_order'' = JDict burger_pending"
    by (simp add: burger_state_def dget_def)
  have h4: "map_of burger_pending ''restaurant_id'' = Some (JStr ''r1'')"
    by (simp add: burger_pending_def)
  have h5: "py_lower (text_of asap_message) = ''asap'' \<or> py_lower (text_of asap_message) = ''now''"
    by (simp add: asap_message_def text_simps)
  have ro: "rest_orders picked_world ''r1'' = JList [JStr ''OLD1'']"
    by (simp add: rest_orders_def picked_world_def burger_world_def empty_world_def dget_def)
  have rc: "rest_orders_count picked_world ''r1'' = JNum 3"
    by (simp add: rest_orders_count_def picked_world_def burger_world_def empty_world_def dget_def)
  have h6: "is_orders_value (rest_orders picked_world ''r1'')"
    by (simp add: ro is_orders_value_def)
  have h7: "counter_value (rest_orders_count picked_world ''r1'') = Some 3"
    by (simp add: rc counter_value_def)
  have nt: "notify_target picked_world ''r1'' = JNum 77"
    by (simp add: notify_target_def picked_world_def burger_world_def empty_world_def dget_def)
  have tp: "map_of burger_pending ''total_price'' = Some (JNum 10)"
    by (simp add: burger_pending_def)
  have ev: "new_order_id demo_env = ''0A1B2C3D4E5F''"
    "(now demo_env)\<lparr>tzinfo := Some 0\<rparr> = \<lparr>wall = 2000, tzinfo = Some 0\<rparr>"
    "isoformat demo_env \<lparr>wall = 2000, tzinfo = Some 0\<rparr> = ''2020-01-01T10:16:40+00:00''"
    by (simp_all add: demo_env_def)
  have who: "from_id asap_message = 7" by (simp add: asap_message_def)
  have lst: "(if JStr ''0A1B2C3D4E5F'' \<in> set (orders_list (JList [JStr ''OLD1'']))
              then orders_list (JList [JStr ''OLD1''])
              else orders_list (JList [JStr ''OLD1'']) @ [JStr ''0A1B2C3D4E5F''])
             = [JStr ''OLD1'', JStr ''0A1B2C3D4E5F'']"
    by (simp add: orders_list_def)
  from asap_places_order [OF h1 burger_state_step h3 h4 h5 h6 h7, of demo_env]
  obtain w' order where
    "general_text_handler demo_env asap_message picked_world = Done w'"
    "jget (orders w') [''0A1B2C3D4E5F''] = JDict order"
    "map_of order ''total_price'' = Some (JNum 10)"
    "map_of order ''status'' = Some (JStr ''scheduled'')"
    "map_of order ''scheduled_for'' = Some (JStr ''2020-01-01T10:16:40+00:00'')"
    "counter_value (rest_orders_count w' ''r1'') = Some 4"
    "rest_orders w' ''r1'' = JList [JStr ''OLD1'', JStr ''0A1B2C3D4E5F'']"
    "get_user_state 7 w' = JDict []"
    "map_of (jobs w') (job_id ''0A1B2C3D4E5F'')
           = Some \<lparr>run_date = \<lparr>wall = 2000, tzinfo = Some 0\<rparr>, target = JNum 77,
                   job_order = ''0A1B2C3D4E5F''\<rparr>"
    unfolding nt tp ro ev who lst by (auto simp del: jget.simps)
  with pick_qty_scenario show ?thesis by blast
qed

section \<open>The restaurants near a user\<close>

lemma near_entry_ok:
  assumes "restaurant_ok r"
  shows "near_entry lat lon radius_km rid r =
           Inr (case stored_distance lat lon r of
                  None \<Rightarrow> None
                | Some dst \<Rightarrow> (if dst \<le> radius_km then Some (dst, rid, r) else None))"
proof -
  from assms obtain x where r: "r = JDict x"
    by (cases r) (simp_all add: restaurant_ok_def)
  show ?thesis
  proof (cases "dget x ''location''")
    case JNull
    then show ?thesis
      by (simp add: r near_entry_def stored_distance_def py_get_def)
  next
    case (JDict pos)
    with assms r have pos: "pos \<noteq> []"
      and nums: "\<exists>plon plat. dget pos ''lon'' = JNum plon \<and> dget pos ''lat'' = JNum plat"
      by (auto simp: restaurant_ok_def split: jval.splits)
    from nums obtain plon plat where "dget pos ''lon'' = JNum plon" "dget pos ''lat'' = JNum plat"
      by blast
    with JDict pos show ?thesis
      by (simp add: r near_entry_def stored_distance_def py_get_def py_number_def Let_def)
  qed (use assms r in \<open>simp_all add: restaurant_ok_def\<close>)
qed

lemma near_loop_ok:
  assumes "\<forall>p \<in> set docs. restaurant_ok (snd p)"
  shows "near_loop lat lon radius_km docs = Inr (within_radius lat lon radius_km docs)"
  using assms
proof (induction docs)
  case Nil
  show ?case by (simp add: within_radius_def)
next
  case (Cons p docs)
  obtain rid r where p: "p = (rid, r)" by (cases p)
  from Cons.prems p have ok: "restaurant_ok r" by simp
  from Cons have IH: "near_loop lat lon radius_km docs = Inr (within_radius lat lon radius_km docs)"
    by simp
  show ?case unfolding p
    by (simp add: near_entry_ok [OF ok] IH within_radius_def split: option.splits)
qed

lemma within_radius_iff:
  "(dst, rid, r) \<in> set (within_radius lat lon radius_km docs)
     \<longleftrightarrow> (rid, r) \<in> set docs \<and> stored_distance lat lon r = Some dst \<and> dst \<le> radius_km"
  by (induction docs) (auto simp: within_radius_def split: option.splits if_splits)

lemma near_lines_ok:
  assumes "\<forall>t \<in> set ds. restaurant_ok (snd (snd t))"
  shows "near_lines ds = Inr (map near_line ds)"
  using assms
proof (induction ds)
  case Nil
  show ?case by simp
next
  case (Cons t ds)
  obtain dst rid r where t: "t = (dst, rid, r)" by (cases t)
  from Cons.prems t obtain x where r: "r = JDict x" "map_of x ''name'' \<noteq> None"
    by (auto simp: restaurant_ok_def split: jval.splits)
  from Cons have IH: "near_lines ds = Inr (map near_line ds)" by simp
  show ?case unfolding t using r
    by (auto simp: IH py_item_def near_line_def rest_name_def dget_def)
qed

lemma haversine_same_origin: "haversine 0 0 0 0 = 0"
  by (simp add: haversine_def radians_def)

lemma sorted_take_sort_key: "sorted (map fst (take n (sort_key fst xs)))"
proof -
  have "sorted (map fst (sort_key fst xs))" by (rule sorted_sort_key)
  then have "sorted (take n (map fst (sort_key fst xs)))" by (rule sorted_wrt_take)
  then show ?thesis by (simp add: take_map)
qed

text \<open>
  Claim C9, as amended. For restaurant records that have a name and a location that is absent
  or a pair of numbers, \<open>find_restaurants_near_user\<close> sends one reply. It lists the first 15
  of the restaurants that have a stored location and whose haversine distance from the user
  is at most the radius, sorted ascending by that distance: all of them when there are at
  most 15, the 15 nearest otherwise. A restaurant without a stored location is never listed.
  When no restaurant is within the radius the reply says so.
\<close>

theorem near_search_listing:
  assumes "restaurants w = JDict docs"
    and "\<forall>p \<in> set docs. restaurant_ok (snd p)"
  shows "find_restaurants_near_user user_id lat lon radius_km w
           = Inr (send_message (chat_of user_id)
                   (if within_radius lat lon radius_km docs = []
                    then Message ''No restaurants found within {radius_km} km.'' []
                    else Nearby radius_km
                           (map near_line (take 15 (sort_key fst (within_radius lat lon radius_km docs)))))
                   w)
       \<and> sorted (map fst (take 15 (sort_key fst (within_radius lat lon radius_km docs))))
       \<and> set (take 15 (sort_key fst (within_radius lat lon radius_km docs)))
            \<subseteq> set (within_radius lat lon radius_km docs)
       \<and> (length (within_radius lat lon radius_km docs) \<le> 15
            \<longrightarrow> set (take 15 (sort_key fst (within_radius lat lon radius_km docs)))
                  = set (within_radius lat lon radius_km docs))
       \<and> (\<forall>dst rid r. (dst, rid, r) \<in> set (within_radius lat lon radius_km docs)
            \<longleftrightarrow> (rid, r) \<in> set docs \<and> stored_distance lat lon r = Some dst \<and> dst \<le> radius_km)"
proof -
  let ?hits = "within_radius lat lon radius_km docs"
  let ?shown = "take 15 (sort_key fst ?hits)"
  have loop: "near_loop lat lon radius_km docs = Inr ?hits"
    by (rule near_loop_ok [OF assms(2)])
  have sub: "set ?shown \<subseteq> set ?hits"
    using set_take_subset [of 15 "sort_key fst ?hits"] by simp
  have "\<forall>t \<in> set ?hits. restaurant_ok (snd (snd t))"
    using assms(2) by (auto simp: within_radius_iff)
  with sub have "\<forall>t \<in> set ?shown. restaurant_ok (snd (snd t))" by blast
  then have lines: "near_lines ?shown = Inr (map near_line ?shown)"
    by (rule near_lines_ok)
  have empty: "sort_key fst ?hits = [] \<longleftrightarrow> ?hits = []"
    by (metis length_0_conv length_sort)
  have docs: "(if truthy (restaurants w) then restaurants w else JDict []) = JDict docs"
    using assms(1) by (cases docs) simp_all
  have run: "find_restaurants_near_user user_id lat lon radius_km w
           = Inr (send_message (chat_of user_id)
                   (if ?hits = [] then Message ''No restaurants found within {radius_km} km.'' []
                    else Nearby radius_km (map near_line ?shown)) w)"
    unfolding find_restaurants_near_user_def docs
    by (simp add: loop lines empty Let_def)
  have all: "length ?hits \<le> 15 \<longrightarrow> set ?shown = set ?hits"
    by simp
  from run sub all sorted_take_sort_key [of 15 ?hits] within_radius_iff [of _ _ _ lat lon radius_km docs]
  show ?thesis by blast
qed

lemma haversine_antipode: "haversine 0 0 180 0 = 6371 * pi"
  by (simp add: haversine_def radians_def)

lemma antipode_too_far: "\<not> 6371 * pi \<le> (10::real)"
  using pi_ge_two by linarith

lemma near_world_hits:
  "within_radius 0 0 10 [(''r1'', JDict [(''name'', JStr ''Far Cafe''),
                            (''location'', JDict [(''lat'', JNum 0), (''lon'', JNum 180)])]),
            (''r2'', JDict [(''name'', JStr ''No Place'')]),
            (''r3'', JDict [(''name'', JStr ''Here Cafe''),
                            (''location'', JDict [(''lat'', JNum 0), (''lon'', JNum 0)])])]
   = [(0, ''r3'', JDict [(''name'', JStr ''Here Cafe''),
                            (''location'', JDict [(''lat'', JNum 0), (''lon'', JNum 0)])])]"
  by (simp add: within_radius_def stored_distance_def dget_def haversine_antipode
      haversine_same_origin antipode_too_far)

theorem near_search_listing_witness:
  "find_restaurants_near_user 5 0 0 10 near_world
     = Inr (send_message (chat_of 5) (Nearby 10 [(JStr ''Here Cafe'', 0, ''r3'')]) near_world)"
proof -
  let ?docs = "[(''r1'', JDict [(''name'', JStr ''Far Cafe''),
                            (''location'', JDict [(''lat'', JNum 0), (''lon'', JNum 180)])]),
            (''r2'', JDict [(''name'', JStr ''No Place'')]),
            (''r3'', JDict [(''name'', JStr ''Here Cafe''),
                            (''location'', JDict [(''lat'', JNum 0), (''lon'', JNum 0)])])]"
  have h1: "restaurants near_world = JDict ?docs"
    by (simp add: near_world_def empty_world_def)
  have h2: "\<forall>p \<in> set ?docs. restaurant_ok (snd p)"
    by (simp add: restaurant_ok_def dget_def)
  from near_search_listing [OF h1 h2, of 5 0 0 10]
  show ?thesis
    unfolding near_world_hits
    by (simp add: near_line_def rest_name_def dget_def)
qed

lemma crowded_hits:
  "near_loop 0 0 10 (map crowd_rest crowd_ids) = Inr (map (\<lambda>rid. (0, crowd_rest rid)) crowd_ids)"
  by (simp add: crowd_ids_def crowd_rest_def near_entry_def py_get_def py_number_def dget_def
      haversine_same_origin)

text \<open>
  The claim as stated fails when more than 15 restaurants are within the radius: of sixteen
  restaurants at the user's own position the reply lists fifteen, and the sixteenth, at
  distance 0, is left out by \<open>distances[:15]\<close>.
\<close>

theorem near_search_sixteen_counterexample:
  "find_restaurants_near_user 5 0 0 10 crowded_world
     = Inr (send_message (chat_of 5) (Nearby 10 (map crowd_line (take 15 crowd_ids))) crowded_world)
   \<and> ''r16'' \<notin> set (take 15 crowd_ids)
   \<and> crowd_rest ''r16'' \<in> set (map crowd_rest crowd_ids)
   \<and> stored_distance 0 0 (snd (crowd_rest ''r16'')) = Some 0
   \<and> (0::real) \<le> 10"
proof -
  have sorted: "sort_key fst (map (\<lambda>rid. (0::real, crowd_rest rid)) crowd_ids)
                  = map (\<lambda>rid. (0, crowd_rest rid)) crowd_ids"
    by (simp add: crowd_ids_def)
  have lines: "near_lines (take 15 (map (\<lambda>rid. (0, crowd_rest rid)) crowd_ids))
                 = Inr (map crowd_line (take 15 crowd_ids))"
    by (simp add: crowd_ids_def crowd_rest_def crowd_line_def py_item_def)
  have run: "find_restaurants_near_user 5 0 0 10 crowded_world
     = Inr (send_message (chat_of 5) (Nearby 10 (map crowd_line (take 15 crowd_ids))) crowded_world)"
    unfolding find_restaurants_near_user_def
    by (simp add: crowded_world_def empty_world_def crowded_hits sorted lines Let_def)
       (simp add: crowd_ids_def)
  have "stored_distance 0 0 (snd (crowd_rest ''r16'')) = Some 0"
    by (simp add: stored_distance_def crowd_rest_def dget_def haversine_same_origin)
  with run show ?thesis by (simp add: crowd_ids_def)
qed

section \<open>The page of foods\<close>

lemma rid_unbound: "read_name build_food_page_locals ''rid'' = Inl NameError"
  by (simp add: read_name_def build_food_page_locals_def module_names_def)

lemma food_buttons_raise:
  assumes "fs \<noteq> []"
  shows "\<exists>e. food_buttons idx fs = Inl e"
proof (cases fs)
  case Nil
  with assms show ?thesis by simp
next
  case (Cons f fs')
  then show ?thesis
    by (cases "py_item f ''name''") (simp_all add: rid_unbound)
qed

lemma food_buttons_name_error:
  assumes "py_item f ''name'' = Inr n"
  shows "food_buttons idx (f # fs) = Inl NameError"
  using assms by (simp add: rid_unbound)

lemma food_buttons_Inr:
  assumes "food_buttons idx fs = Inr kb"
  shows "fs = [] \<and> kb = []"
proof (cases fs)
  case Nil
  with assms show ?thesis by simp
next
  case (Cons f fs')
  with food_buttons_raise [of fs idx] assms show ?thesis by auto
qed

lemma build_food_page_always_raises: "build_food_page page = Inl TypeError"
  by (simp add: build_food_page_def get_foods_ref_def build_food_page_on_def Let_def)

lemma build_food_page_on_Inr:
  assumes "build_food_page_on (Food_list fs) page = Inr kb"
  shows "kb = [] \<and> py_slice fs (page * PAGE_SIZE) (page * PAGE_SIZE + PAGE_SIZE) = []
         \<and> \<not> page > 0 \<and> \<not> page * PAGE_SIZE + PAGE_SIZE < int (length fs)"
proof -
  let ?sl = "py_slice fs (page * PAGE_SIZE) (page * PAGE_SIZE + PAGE_SIZE)"
  from assms obtain kb0 where kb0: "food_buttons (page * PAGE_SIZE) ?sl = Inr kb0"
    by (auto simp: build_food_page_on_def Let_def split: sum.splits)
  from food_buttons_Inr [OF kb0] have sl: "?sl = []" "kb0 = []" by simp_all
  from assms kb0 have nav: "\<not> page > 0" "\<not> page * PAGE_SIZE + PAGE_SIZE < int (length fs)"
    by (auto simp: build_food_page_on_def Let_def rid_unbound split: sum.splits if_splits)
  with assms kb0 sl have "kb = []"
    by (simp add: build_food_page_on_def Let_def)
  with sl nav show ?thesis by simp
qed

lemma build_food_page_on_raises:
  assumes "py_slice fs (page * PAGE_SIZE) (page * PAGE_SIZE + PAGE_SIZE) \<noteq> []
           \<or> page > 0 \<or> page * PAGE_SIZE + PAGE_SIZE < int (length fs)"
  shows "\<exists>e. build_food_page_on (Food_list fs) page = Inl e"
proof (cases "build_food_page_on (Food_list fs) page")
  case (Inl e)
  then show ?thesis by blast
next
  case (Inr kb)
  from build_food_page_on_Inr [OF Inr] assms show ?thesis by blast
qed

lemma food_page_callbacks_raise:
  assumes "call_data call = Inr (JDict data)"
    and "dget data ''action'' = JStr ''food_page'' \<or> dget data ''action'' = JStr ''add_food_existing''"
  shows "\<exists>e. callback_handler ev call w = Raised e w"
  using assms
  by (auto simp: callback_handler_def Let_def build_food_page_always_raises
      split: option.splits sum.splits)

text \<open>
  Claim C10. Every call of \<open>build_food_page\<close> raises: what \<open>get_foods_ref()\<close> returns
  cannot be sliced. Were \<open>foods\<close> the list of foods, every call that renders a food button
  or a navigation button would still raise, with \<open>NameError\<close> for \<open>rid\<close> as soon as the first
  food of the page has a name, since \<open>rid\<close> is bound neither in the function nor in the
  module; the only calls that return give a keyboard with no button. The action
  \<open>food_page\<close> passes two arguments to a function of one parameter. So the actions
  \<open>food_page\<close> and \<open>add_food_existing\<close> always end in an exception that nothing catches,
  with nothing sent and nothing stored.
\<close>

theorem build_food_page_raises:
  "(\<exists>e. build_food_page page = Inl e)
   \<and> (py_slice fs (page * PAGE_SIZE) (page * PAGE_SIZE + PAGE_SIZE) \<noteq> []
        \<or> page > 0 \<or> page * PAGE_SIZE + PAGE_SIZE < int (length fs)
       \<longrightarrow> (\<exists>e. build_food_page_on (Food_list fs) page = Inl e))
   \<and> (\<forall>f rest n. py_slice fs (page * PAGE_SIZE) (page * PAGE_SIZE + PAGE_SIZE) = f # rest
         \<and> py_item f ''name'' = Inr n
       \<longrightarrow> build_food_page_on (Food_list fs) page = Inl NameError)
   \<and> (\<forall>kb. build_food_page_on (Food_list fs) page = Inr kb \<longrightarrow> kb = [])
   \<and> (call_data call = Inr (JDict data)
        \<and> (dget data ''action'' = JStr ''food_page'' \<or> dget data ''action'' = JStr ''add_food_existing'')
       \<longrightarrow> (\<exists>e. callback_handler ev call w = Raised e w))"
proof -
  have a: "\<exists>e. build_food_page page = Inl e"
    by (simp add: build_food_page_always_raises)
  have c: "build_food_page_on (Food_list fs) page = Inl NameError"
    if "py_slice fs (page * PAGE_SIZE) (page * PAGE_SIZE + PAGE_SIZE) = f # rest"
      "py_item f ''name'' = Inr n" for f rest n
    using that by (simp add: build_food_page_on_def Let_def rid_unbound)
  from a c build_food_page_on_raises [of fs page] build_food_page_on_Inr [of fs page]
    food_page_callbacks_raise [of call data ev w]
  show ?thesis by blast
qed

theorem build_food_page_raises_witness:
  "build_food_page_on (Food_list burger_foods) 0 = Inl NameError
   \<and> (\<exists>e. callback_handler demo_env food_page_press empty_world = Raised e empty_world)"
proof -
  have sl: "py_slice burger_foods (0 * PAGE_SIZE) (0 * PAGE_SIZE + PAGE_SIZE)
              = JDict [(''name'', JStr ''Burger''), (''people'', JNum 1)] # []"
    by (simp add: py_slice_def slice_bound_def burger_foods_def PAGE_SIZE_def)
  have nm: "py_item (JDict [(''name'', JStr ''Burger''), (''people'', JNum 1)]) ''name'' = Inr (JStr ''Burger'')"
    by (simp add: py_item_def)
  have cd: "call_data food_page_press = Inr (JDict [(''action'', JStr ''add_food_existing'')])"
    by (simp add: food_page_press_def)
  have ac: "dget [(''action'', JStr ''add_food_existing'')] ''action'' = JStr ''food_page''
            \<or> dget [(''action'', JStr ''add_food_existing'')] ''action'' = JStr ''add_food_existing''"
    by (simp add: dget_def)
  from build_food_page_raises [of 0 burger_foods food_page_press
        "[(''action'', JStr ''add_food_existing'')]" demo_env empty_world] sl nm cd ac
  show ?thesis by blast
qed


end
